theory Spec2Isabelle
  imports Main "HOL-Library.Word"
begin

section \<open>The transport and buffering core of libmemcached: io.cc and do.cc\<close>

text \<open>
  The functions of \<^verbatim>\<open>src/libmemcached/io.cc\<close> and \<^verbatim>\<open>src/libmemcached/do.cc\<close> are
  embedded as HOL functions over an explicit connection state
  (\<^verbatim>\<open>memcached_instance_st\<close>) and an explicit environment (\<open>world\<close>) that scripts the
  result of every system call and of every collaborator that lives outside these two
  files. A function returns \<open>Inl\<close> of a \<open>fault\<close> where the C program does not return
  normally (a failed assertion, an access outside an array, a null root) or where the
  model cannot follow it any further (a script or the loop fuel ran out), and \<open>Inr\<close> of
  its C result, the new connection state and the new world otherwise.

  The target is the Linux build (\<^verbatim>\<open>__linux\<close> defined, \<^verbatim>\<open>__MINGW32__\<close> and
  \<^verbatim>\<open>__APPLE__\<close> not, 64-bit \<^verbatim>\<open>size_t\<close>). The \<^verbatim>\<open>ENABLE_PRINT\<close> blocks only print and
  the \<^verbatim>\<open>WATCHPOINT_*\<close> macros are diagnostics; neither is modelled.
\<close>

subsection \<open>Build configuration\<close>

text \<open>
  The macros below are defined outside the two source files, so they are parameters of
  the model. \<^verbatim>\<open>ENABLE_SOCKET_FUNCTIONS\<close> and \<^verbatim>\<open>ENABLE_MPI_FUNCTIONS\<close> are
  complementary (with both or neither set, \<^verbatim>\<open>io_flush\<close> and \<^verbatim>\<open>_io_fill\<close> do not
  compile), so one boolean stands for the pair: \<open>True\<close> is the socket build, \<open>False\<close>
  the MPI build. \<open>NDEBUG\<close> switches \<^verbatim>\<open>assert\<close> and \<^verbatim>\<open>assert_msg\<close> off.
\<close>

record config =
  MEMCACHED_MAX_BUFFER :: nat
  UDP_DATAGRAM_HEADER_LENGTH :: nat
  ENABLE_SOCKET_FUNCTIONS :: bool
  NDEBUG :: bool

subsection \<open>Data model\<close>

type_synonym byte = "8 word"

datatype errno_t =
    EINTR | EAGAIN | EWOULDBLOCK | ERESTART | ETIMEDOUT | ENOBUFS | ENOTCONN | EPIPE
  | EMSGSIZE | EFAULT | ENOMEM | EINVAL | EBADF | ENOTSOCK | ECONNREFUSED | EOTHER nat

text \<open>
  Modelled from the spec: the enumeration \<^verbatim>\<open>memcached_return_t\<close> is declared outside
  src/. These are the error kinds of the spec's section 7 together with the codes the
  two source files name.
\<close>

datatype memcached_return_t =
    MEMCACHED_SUCCESS
  | MEMCACHED_FAILURE
  | MEMCACHED_CONNECTION_FAILURE
  | MEMCACHED_WRITE_FAILURE
  | MEMCACHED_PROTOCOL_ERROR
  | MEMCACHED_TIMEOUT
  | MEMCACHED_NOT_SUPPORTED
  | MEMCACHED_MEMORY_ALLOCATION_FAILURE
  | MEMCACHED_ERRNO
  | MEMCACHED_IN_PROGRESS

datatype memcached_server_state_t =
    MEMCACHED_SERVER_STATE_NEW
  | MEMCACHED_SERVER_STATE_ADDRINFO
  | MEMCACHED_SERVER_STATE_IN_PROGRESS
  | MEMCACHED_SERVER_STATE_CONNECTED

text \<open>A recorded error: its kind and, for an errno-based one, the captured errno.\<close>

type_synonym memcached_error_t = "memcached_return_t \<times> errno_t option"

text \<open>
  The fields of \<^verbatim>\<open>Memcached\<close> (the root shared by all connections) that the two files
  read or write. \<open>callbacks\<close> is \<open>None\<close> for a null pointer and the number of callbacks
  otherwise; \<open>memc_error_messages\<close> has the most recent error first.
\<close>

record memcached_st =
  poll_timeout :: int
  flags_use_udp :: bool
  flags_reply :: bool
  callbacks :: "nat option"
  is_processing_input :: bool
  memc_error_messages :: "memcached_error_t list"

text \<open>
  The fields of \<^verbatim>\<open>memcached_instance_st\<close> that the two files use. \<open>read_ptr\<close> is the
  offset of the C pointer from the start of \<open>read_buffer\<close>. Sizes (\<^verbatim>\<open>size_t\<close>) are
  natural numbers, with the wrap-around written out where a subtraction can go below
  zero; the 32-bit and 8-bit counters are words. \<open>root\<close> is \<open>None\<close> for a null pointer.
  \<open>udp_message_id\<close> is the spec's per-connection message id.
\<close>

record memcached_instance_st =
  fd :: int
  state :: memcached_server_state_t
  is_shutting_down :: bool
  read_buffer :: "byte list"
  read_ptr :: nat
  read_buffer_length :: nat
  read_data_length :: nat
  write_buffer :: "byte list"
  write_buffer_offset :: nat
  io_bytes_sent :: "32 word"
  io_wait_count_read :: "32 word"
  io_wait_count_write :: "32 word"
  io_wait_count_bytes_read :: "64 word"
  cursor_active :: "32 word"
  major_version :: "8 word"
  minor_version :: "8 word"
  micro_version :: "8 word"
  udp_message_id :: "16 word"
  error_messages :: "memcached_error_t list"
  root :: "memcached_st option"

definition INVALID_SOCKET :: int where
  "INVALID_SOCKET = - 1"

definition UINT8_MAX :: "8 word" where
  "UINT8_MAX = 255"

subsection \<open>The environment: system calls and collaborators\<close>

datatype fault = AssertionFailed | OutOfBounds | NullPointer | ScriptExhausted | OutOfFuel

datatype shut_how = SHUT_RD | SHUT_WR | SHUT_RDWR

text \<open>The readiness bits of \<^verbatim>\<open>poll\<close> that the code looks at, and one for all the others.\<close>

record pollflags =
  POLLIN :: bool
  POLLOUT :: bool
  POLLERR :: bool
  POLLHUP :: bool
  POLLNVAL :: bool

definition no_events :: pollflags where
  "no_events = \<lparr>POLLIN = False, POLLOUT = False, POLLERR = False, POLLHUP = False, POLLNVAL = False\<rparr>"

text \<open>The calls made, in order; \<open>calls\<close> of the world is the log.\<close>

datatype syscall =
    Call_shutdown int shut_how
  | Call_closesocket int
  | Call_recv int nat
  | Call_send int "byte list" bool
  | Call_sendmsg int "byte list list"
  | Call_poll "int list" int
  | Call_getsockopt int
  | Call_MPI_Irecv
  | Call_MPI_Send "byte list"
  | Call_MPI_Test
  | Call_usleep

datatype recv_result = RecvData "byte list" | RecvError errno_t

datatype send_result = SendCount nat | SendError errno_t

datatype poll_result = PollRevents "pollflags list" | PollError errno_t

datatype getsockopt_result = SoError "errno_t option" | GetsockoptError errno_t

text \<open>
  Each system call takes its result from the head of its own script; a failing call
  also sets \<open>errno\<close>. The collaborators \<^verbatim>\<open>memcached_purge\<close>, \<^verbatim>\<open>memcached_response\<close>,
  \<^verbatim>\<open>memcached_connect\<close> and the user callbacks are defined outside src/: their results,
  and the connection state they leave behind (\<open>None\<close> when they leave the connection
  as it is), are scripted too, so that the model assumes nothing about them. The system
  calls made inside a collaborator are not part of the log. A completed \<^verbatim>\<open>MPI_Test\<close> delivers the bytes of the
  pending \<^verbatim>\<open>MPI_Irecv\<close>, if any.
\<close>

record world =
  errno :: errno_t
  calls :: "syscall list"
  shutdown_results :: "errno_t option list"
  recv_results :: "recv_result list"
  send_results :: "send_result list"
  sendmsg_results :: "send_result list"
  poll_results :: "poll_result list"
  getsockopt_results :: "getsockopt_result list"
  mpi_test_results :: "byte list option list"
  purge_results :: "(bool \<times> memcached_instance_st option) list"
  response_results :: "(memcached_return_t \<times> memcached_instance_st option) list"
  callback_results :: "memcached_return_t list"
  connect_results :: "(memcached_return_t \<times> memcached_instance_st option) list"

definition sys_shutdown :: "int \<Rightarrow> shut_how \<Rightarrow> world \<Rightarrow> fault + (errno_t option \<times> world)" where
  "sys_shutdown s how w =
     (case shutdown_results w of
        [] \<Rightarrow> Inl ScriptExhausted
      | r # rs \<Rightarrow>
          Inr (r, w\<lparr>errno := (case r of None \<Rightarrow> errno w | Some e \<Rightarrow> e),
                     calls := calls w @ [Call_shutdown s how],
                     shutdown_results := rs\<rparr>))"

subsection \<open>Connection lifecycle (io.cc)\<close>

text \<open>\<^verbatim>\<open>memcached_is_udp(root)\<close> reads the transport flag of the root.\<close>

definition memcached_is_udp :: "memcached_st \<Rightarrow> bool" where
  "memcached_is_udp r = flags_use_udp r"

text \<open>
  \<^verbatim>\<open>reset_socket\<close>: releases the descriptor if there is one. The result of
  \<^verbatim>\<open>closesocket\<close> is discarded by the code.
\<close>

definition reset_socket :: "memcached_instance_st \<Rightarrow> world \<Rightarrow> memcached_instance_st \<times> world" where
  "reset_socket st w =
     (if fd st \<noteq> INVALID_SOCKET
      then (st\<lparr>fd := INVALID_SOCKET\<rparr>, w\<lparr>calls := calls w @ [Call_closesocket (fd st)]\<rparr>)
      else (st, w))"

text \<open>
  \<^verbatim>\<open>close_socket\<close>. The result of \<^verbatim>\<open>shutdown\<close> only feeds watchpoints.
  \<^verbatim>\<open>memcached_server_response_reset(this)\<close> is the macro that zeroes the
  pending-response count \<open>cursor_active\<close>.
\<close>

definition close_socket ::
  "config \<Rightarrow> memcached_instance_st \<Rightarrow> world \<Rightarrow> fault + (memcached_instance_st \<times> world)" where
  "close_socket cfg st w =
     (case (if fd st \<noteq> INVALID_SOCKET
            then (let shutdown_options = (if is_shutting_down st = False then SHUT_RDWR else SHUT_RD)
                  in case sys_shutdown (fd st) shutdown_options w of
                       Inl e \<Rightarrow> Inl e
                     | Inr (r, w1) \<Rightarrow>
                         (let (st1, w2) = reset_socket st w1
                          in Inr (st1\<lparr>state := MEMCACHED_SERVER_STATE_NEW\<rparr>, w2)))
            else Inr (st, w)) of
        Inl e \<Rightarrow> Inl e
      | Inr (st2, w3) \<Rightarrow>
          Inr (st2\<lparr>state := MEMCACHED_SERVER_STATE_NEW,
                    cursor_active := 0,
                    io_bytes_sent := 0,
                    write_buffer_offset :=
                      (if (case root st2 of None \<Rightarrow> False | Some r \<Rightarrow> memcached_is_udp r)
                       then UDP_DATAGRAM_HEADER_LENGTH cfg else 0),
                    read_buffer_length := 0,
                    read_ptr := 0,
                    is_shutting_down := False,
                    major_version := UINT8_MAX,
                    minor_version := UINT8_MAX,
                    micro_version := UINT8_MAX\<rparr>, w3))"

subsection \<open>The error sink and the return-code predicates\<close>

text \<open>
  Modelled from the spec: \<^verbatim>\<open>memcached_set_error\<close>, \<^verbatim>\<open>memcached_set_errno\<close>,
  \<^verbatim>\<open>memcached_has_error\<close>, \<^verbatim>\<open>memcached_instance_error_return\<close> and
  \<^verbatim>\<open>memcached_last_error\<close> are defined outside src/. Following the spec's sections 6
  and 7, a "set error" call records the error kind and returns it; an error set on a
  connection becomes the last recorded error of the connection and of its root;
  \<^verbatim>\<open>memcached_set_errno\<close> records the catch-all kind with the captured errno. The
  last recorded error of a connection or root with none recorded is success.
\<close>

definition record_error :: "memcached_error_t \<Rightarrow> memcached_instance_st \<Rightarrow> memcached_instance_st" where
  "record_error e st =
     st\<lparr>error_messages := e # error_messages st,
        root := map_option (\<lambda>r. r\<lparr>memc_error_messages := e # memc_error_messages r\<rparr>) (root st)\<rparr>"

definition memcached_set_error ::
  "memcached_instance_st \<Rightarrow> memcached_return_t \<Rightarrow> memcached_return_t \<times> memcached_instance_st" where
  "memcached_set_error st rc = (rc, record_error (rc, None) st)"

definition memcached_set_errno ::
  "memcached_instance_st \<Rightarrow> errno_t \<Rightarrow> memcached_return_t \<times> memcached_instance_st" where
  "memcached_set_errno st e = (MEMCACHED_ERRNO, record_error (MEMCACHED_ERRNO, Some e) st)"

definition memcached_set_error_memc ::
  "memcached_st \<Rightarrow> memcached_return_t \<Rightarrow> memcached_return_t \<times> memcached_st" where
  "memcached_set_error_memc r rc = (rc, r\<lparr>memc_error_messages := (rc, None) # memc_error_messages r\<rparr>)"

definition memcached_set_errno_memc ::
  "memcached_st \<Rightarrow> errno_t \<Rightarrow> memcached_return_t \<times> memcached_st" where
  "memcached_set_errno_memc r e =
     (MEMCACHED_ERRNO, r\<lparr>memc_error_messages := (MEMCACHED_ERRNO, Some e) # memc_error_messages r\<rparr>)"

definition memcached_has_error :: "memcached_instance_st \<Rightarrow> bool" where
  "memcached_has_error st = (error_messages st \<noteq> [])"

definition memcached_instance_error_return :: "memcached_instance_st \<Rightarrow> memcached_return_t" where
  "memcached_instance_error_return st =
     (case error_messages st of [] \<Rightarrow> MEMCACHED_SUCCESS | e # _ \<Rightarrow> fst e)"

definition memcached_last_error :: "memcached_st \<Rightarrow> memcached_return_t" where
  "memcached_last_error r =
     (case memc_error_messages r of [] \<Rightarrow> MEMCACHED_SUCCESS | e # _ \<Rightarrow> fst e)"

text \<open>
  Modelled from the spec: the predicates \<^verbatim>\<open>memcached_success\<close>, \<^verbatim>\<open>memcached_failed\<close>,
  \<^verbatim>\<open>memcached_fatal\<close> and \<^verbatim>\<open>memcached_continue\<close> are defined outside src/. On the
  codes above, success is the only one that is neither a failure nor fatal, and the
  "continue" status of the spec's section 7 is \<^verbatim>\<open>MEMCACHED_IN_PROGRESS\<close>.
\<close>

definition memcached_success :: "memcached_return_t \<Rightarrow> bool" where
  "memcached_success rc = (rc = MEMCACHED_SUCCESS)"

definition memcached_failed :: "memcached_return_t \<Rightarrow> bool" where
  "memcached_failed rc = (rc \<noteq> MEMCACHED_SUCCESS)"

definition memcached_fatal :: "memcached_return_t \<Rightarrow> bool" where
  "memcached_fatal rc = (rc \<noteq> MEMCACHED_SUCCESS)"

definition memcached_continue :: "memcached_return_t \<Rightarrow> bool" where
  "memcached_continue rc = (rc = MEMCACHED_IN_PROGRESS)"

text \<open>
  Modelled from the spec: \<^verbatim>\<open>memcached_quit_server\<close> is defined outside src/. The two
  files only call it with \<^verbatim>\<open>io_death = true\<close>, where the spec says "close the
  connection": it is \<^verbatim>\<open>close_socket\<close>.
\<close>

definition memcached_quit_server ::
  "config \<Rightarrow> memcached_instance_st \<Rightarrow> world \<Rightarrow> fault + (memcached_instance_st \<times> world)" where
  "memcached_quit_server cfg st w = close_socket cfg st w"

subsection \<open>The UDP framer (do.cc)\<close>

text \<open>
  One part of a scatter-gather write: \<open>iov_buffer\<close> is \<open>None\<close> for a null pointer,
  \<open>iov_length\<close> the number of bytes the caller asks to send from it.
\<close>

record libmemcached_io_vector_st =
  iov_buffer :: "byte list option"
  iov_length :: nat

definition iov_bytes :: "libmemcached_io_vector_st \<Rightarrow> byte list" where
  "iov_bytes p = (case iov_buffer p of None \<Rightarrow> [] | Some bs \<Rightarrow> take (iov_length p) bs)"

definition sys_sendmsg :: "int \<Rightarrow> byte list list \<Rightarrow> world \<Rightarrow> fault + (send_result \<times> world)" where
  "sys_sendmsg s iov w =
     (case sendmsg_results w of
        [] \<Rightarrow> Inl ScriptExhausted
      | r # rs \<Rightarrow>
          Inr (r, w\<lparr>errno := (case r of SendCount n \<Rightarrow> errno w | SendError e \<Rightarrow> e),
                     calls := calls w @ [Call_sendmsg s iov],
                     sendmsg_results := rs\<rparr>))"

text \<open>
  Modelled from the spec: \<^verbatim>\<open>increment_udp_message_id\<close> is defined outside src/. The
  message id is incremented (wrapping at its 16 bits) and stamped big-endian into the
  datagram header at the start of the write buffer.
\<close>

definition increment_udp_message_id :: "memcached_instance_st \<Rightarrow> memcached_instance_st" where
  "increment_udp_message_id st =
     (let i = udp_message_id st + 1
      in st\<lparr>udp_message_id := i,
             write_buffer := (write_buffer st)[0 := ucast (drop_bit 8 i), 1 := ucast i]\<rparr>)"

text \<open>
  The retry loop of \<^verbatim>\<open>_vdo_udp\<close>: \<^verbatim>\<open>while (--retry)\<close> around one \<^verbatim>\<open>sendmsg\<close>. The
  argument is the value of \<open>retry\<close> before the decrement; the loop is entered with 5, so
  the unsigned wrap-around of a decrement at 0 never happens.
\<close>

fun vdo_udp_loop ::
  "nat \<Rightarrow> byte list list \<Rightarrow> memcached_instance_st \<Rightarrow> world \<Rightarrow>
   fault + (memcached_return_t \<times> memcached_instance_st \<times> world)" where
  "vdo_udp_loop retry iov st w =
     (if retry - 1 = 0 then Inr (MEMCACHED_SUCCESS, st, w)
      else case sys_sendmsg (fd st) iov w of
             Inl e \<Rightarrow> Inl e
           | Inr (SendCount sendmsg_length, w1) \<Rightarrow>
               if sendmsg_length > 0 then Inr (MEMCACHED_SUCCESS, st, w1)
               else vdo_udp_loop (retry - 1) iov st w1
           | Inr (SendError e, w1) \<Rightarrow>
               if errno w1 = EMSGSIZE
               then (let (rc, st1) = memcached_set_error st MEMCACHED_WRITE_FAILURE in Inr (rc, st1, w1))
               else (let (rc, st1) = memcached_set_errno st (errno w1) in Inr (rc, st1, w1)))"

text \<open>
  \<^verbatim>\<open>_vdo_udp\<close>. The caller's vector is updated in place (its first slot receives the
  header), so the updated vector is part of the result.
\<close>

definition vdo_udp ::
  "config \<Rightarrow> memcached_instance_st \<Rightarrow> libmemcached_io_vector_st list \<Rightarrow> nat \<Rightarrow> world \<Rightarrow>
   fault + (memcached_return_t \<times> libmemcached_io_vector_st list \<times> memcached_instance_st \<times> world)" where
  "vdo_udp cfg st vector count w =
     (case vector of
        [] \<Rightarrow> Inl OutOfBounds
      | v0 # vs \<Rightarrow>
          if iov_buffer v0 \<noteq> None \<or> iov_length v0 \<noteq> 0
          then (case root st of
                  None \<Rightarrow> Inl NullPointer
                | Some r \<Rightarrow>
                    (let (rc, r1) = memcached_set_error_memc r MEMCACHED_NOT_SUPPORTED
                     in Inr (rc, vector, st\<lparr>root := Some r1\<rparr>, w)))
          else (let st1 = increment_udp_message_id st;
                    vector1 = \<lparr>iov_buffer = Some (write_buffer st1),
                               iov_length = UDP_DATAGRAM_HEADER_LENGTH cfg\<rparr> # vs
                in if length vector1 < count then Inl OutOfBounds
                   else case vdo_udp_loop 5 (map iov_bytes (take count vector1)) st1 w of
                          Inl e \<Rightarrow> Inl e
                        | Inr (rc, st2, w1) \<Rightarrow> Inr (rc, vector1, st2, w1)))"

subsection \<open>The readable-connection selector (io.cc)\<close>

definition MAX_SERVERS_TO_POLL :: nat where
  "MAX_SERVERS_TO_POLL = 100"

text \<open>
  \<^verbatim>\<open>poll\<close> over the descriptors \<open>fds\<close>, each with the events asked for: the script
  gives the events pending on each descriptor (none for a descriptor beyond the end of
  the scripted list), of which \<^verbatim>\<open>poll\<close> reports readability and writability only if
  asked for; the return value is the number of descriptors with an event reported, or
  -1 with \<open>errno\<close> set.
\<close>

definition revents_of :: "pollflags list \<Rightarrow> nat \<Rightarrow> pollflags \<Rightarrow> pollflags" where
  "revents_of revs i events =
     (if i < length revs
      then (revs ! i)\<lparr>POLLIN := POLLIN (revs ! i) \<and> POLLIN events,
                      POLLOUT := POLLOUT (revs ! i) \<and> POLLOUT events\<rparr>
      else no_events)"

definition sys_poll ::
  "(int \<times> pollflags) list \<Rightarrow> int \<Rightarrow> world \<Rightarrow> fault + (int \<times> pollflags list \<times> world)" where
  "sys_poll fds timeout w =
     (case poll_results w of
        [] \<Rightarrow> Inl ScriptExhausted
      | r # rs \<Rightarrow>
          (let w1 = w\<lparr>calls := calls w @ [Call_poll (map fst fds) timeout], poll_results := rs\<rparr>
           in case r of
                PollError e \<Rightarrow> Inr (- 1, map (\<lambda>_. no_events) fds, w1\<lparr>errno := e\<rparr>)
              | PollRevents revs \<Rightarrow>
                  (let revents = map (\<lambda>i. revents_of revs i (snd (fds ! i))) [0 ..< length fds]
                   in Inr (int (length (filter (\<lambda>e. e \<noteq> no_events) revents)), revents, w1))))"

definition events_POLLIN :: pollflags where
  "events_POLLIN = no_events\<lparr>POLLIN := True\<rparr>"

definition events_POLLOUT :: pollflags where
  "events_POLLOUT = no_events\<lparr>POLLOUT := True\<rparr>"

text \<open>
  The first pass of \<^verbatim>\<open>memcached_io_get_readable_server\<close>, from server index \<open>x\<close> with
  the descriptors \<open>fds\<close> collected so far (\<open>host_index\<close> is their number): \<open>Inl\<close> of the
  index of a server with buffered data, or \<open>Inr\<close> of the descriptors to poll.
\<close>

fun collect_pollfds :: "memcached_instance_st list \<Rightarrow> nat \<Rightarrow> int list \<Rightarrow> nat + int list" where
  "collect_pollfds [] x fds = Inr fds"
| "collect_pollfds (instance # rest) x fds =
     (if length fds < MAX_SERVERS_TO_POLL
      then (if read_buffer_length instance > 0 then Inl x
            else collect_pollfds rest (Suc x)
                   (if cursor_active instance > 0 then fds @ [fd instance] else fds))
      else Inr fds)"

text \<open>The second loop: the first server that is owed a response.\<close>

fun first_pending :: "memcached_instance_st list \<Rightarrow> nat \<Rightarrow> nat option" where
  "first_pending [] x = None"
| "first_pending (instance # rest) x =
     (if cursor_active instance > 0 then Some x else first_pending rest (Suc x))"

text \<open>The innermost loop: the first server that owns the descriptor \<open>s\<close>.\<close>

fun find_fd :: "memcached_instance_st list \<Rightarrow> nat \<Rightarrow> int \<Rightarrow> nat option" where
  "find_fd [] y s = None"
| "find_fd (instance # rest) y s = (if fd instance = s then Some y else find_fd rest (Suc y) s)"

text \<open>The loop over the polled descriptors.\<close>

fun first_readable ::
  "memcached_instance_st list \<Rightarrow> int list \<Rightarrow> pollflags list \<Rightarrow> nat option" where
  "first_readable servers [] revents = None"
| "first_readable servers (s # fds) revents =
     (case revents of
        [] \<Rightarrow> None
      | e # es \<Rightarrow>
          (if POLLIN e
           then (case find_fd servers 0 s of
                   Some y \<Rightarrow> Some y
                 | None \<Rightarrow> first_readable servers fds es)
           else first_readable servers fds es))"

text \<open>
  \<^verbatim>\<open>memcached_io_get_readable_server\<close>: the servers of \<open>memc\<close> are the list \<open>servers\<close>,
  and the connection returned is given by its index (\<open>None\<close> for a null pointer).
\<close>

definition memcached_io_get_readable_server ::
  "memcached_st \<Rightarrow> memcached_instance_st list \<Rightarrow> world \<Rightarrow>
   fault + (nat option \<times> memcached_st \<times> world)" where
  "memcached_io_get_readable_server memc servers w =
     (case collect_pollfds servers 0 [] of
        Inl x \<Rightarrow> Inr (Some x, memc, w)
      | Inr fds \<Rightarrow>
          if length fds < 2 then Inr (first_pending servers 0, memc, w)
          else case sys_poll (map (\<lambda>s. (s, events_POLLIN)) fds) (poll_timeout memc) w of
                 Inl e \<Rightarrow> Inl e
               | Inr (error, revents, w1) \<Rightarrow>
                   if error = - 1
                   then Inr (None, snd (memcached_set_errno_memc memc (errno w1)), w1)
                   else if error = 0 then Inr (None, memc, w1)
                   else Inr (first_readable servers fds revents, memc, w1))"

subsection \<open>The poll gate (io.cc)\<close>

definition sys_getsockopt :: "int \<Rightarrow> world \<Rightarrow> fault + (getsockopt_result \<times> world)" where
  "sys_getsockopt s w =
     (case getsockopt_results w of
        [] \<Rightarrow> Inl ScriptExhausted
      | r # rs \<Rightarrow>
          Inr (r, w\<lparr>errno := (case r of SoError err \<Rightarrow> errno w | GetsockoptError e \<Rightarrow> e),
                     calls := calls w @ [Call_getsockopt s],
                     getsockopt_results := rs\<rparr>))"

text \<open>
  \<^verbatim>\<open>memcached_purge\<close> is defined outside src/; the spec only says that it drains
  pending input and can fail. Its result and its effect on the connection come from
  the script.
\<close>

definition memcached_purge ::
  "memcached_instance_st \<Rightarrow> world \<Rightarrow> fault + (bool \<times> memcached_instance_st \<times> world)" where
  "memcached_purge st w =
     (case purge_results w of
        [] \<Rightarrow> Inl ScriptExhausted
      | (b, st1) # rs \<Rightarrow>
          Inr (b, (case st1 of None \<Rightarrow> st | Some st2 \<Rightarrow> st2), w\<lparr>purge_results := rs\<rparr>))"

text \<open>
  The code of \<^verbatim>\<open>io_wait\<close> after its loop, reached when the loop counter runs out and
  when the \<^verbatim>\<open>switch\<close> on the errno of \<^verbatim>\<open>poll\<close> leaves the loop by \<^verbatim>\<open>break\<close>.
\<close>

definition io_wait_after_loop ::
  "config \<Rightarrow> memcached_instance_st \<Rightarrow> world \<Rightarrow>
   fault + (memcached_return_t \<times> memcached_instance_st \<times> world)" where
  "io_wait_after_loop cfg st w =
     (case memcached_quit_server cfg st w of
        Inl e \<Rightarrow> Inl e
      | Inr (st1, w1) \<Rightarrow>
          if memcached_has_error st1
          then Inr (memcached_instance_error_return st1, st1, w1)
          else (let (rc, st2) = memcached_set_error st1 MEMCACHED_CONNECTION_FAILURE
                in Inr (rc, st2, w1)))"

text \<open>
  The loop of \<^verbatim>\<open>io_wait\<close>: \<^verbatim>\<open>while (--loop_max)\<close> around one \<^verbatim>\<open>poll\<close> of the
  connection's descriptor. The argument is the value of \<open>loop_max\<close> before the decrement;
  the loop is entered with 5. With one descriptor polled, \<^verbatim>\<open>poll\<close> returns -1, 0 or 1,
  so the two assertions on \<open>active_fd\<close> hold. In the \<^verbatim>\<open>switch\<close>, the cases
  \<^verbatim>\<open>EFAULT\<close>/\<^verbatim>\<open>ENOMEM\<close> and \<^verbatim>\<open>EINVAL\<close> fall through to \<^verbatim>\<open>default\<close>.
\<close>

fun io_wait_loop ::
  "config \<Rightarrow> nat \<Rightarrow> pollflags \<Rightarrow> memcached_instance_st \<Rightarrow> world \<Rightarrow>
   fault + (memcached_return_t \<times> memcached_instance_st \<times> world)" where
  "io_wait_loop cfg loop_max events st w =
     (if loop_max - 1 = 0 then io_wait_after_loop cfg st w
      else case root st of
        None \<Rightarrow> Inl NullPointer
      | Some r \<Rightarrow>
         (case sys_poll [(fd st, events)] (poll_timeout r) w of
            Inl e \<Rightarrow> Inl e
          | Inr (active_fd, revents, w1) \<Rightarrow>
             (let fds_revents = (case revents of [] \<Rightarrow> no_events | e # _ \<Rightarrow> e)
              in if active_fd \<ge> 1
                 then (if POLLIN fds_revents \<or> POLLOUT fds_revents
                       then Inr (MEMCACHED_SUCCESS, st, w1)
                       else if POLLHUP fds_revents
                       then (let (rc, st1) = memcached_set_error st MEMCACHED_CONNECTION_FAILURE
                             in Inr (rc, st1, w1))
                       else if POLLERR fds_revents
                       then (case sys_getsockopt (fd st) w1 of
                               Inl e \<Rightarrow> Inl e
                             | Inr (SoError None, w2) \<Rightarrow>
                                 io_wait_loop cfg (loop_max - 1) events st w2
                             | Inr (SoError (Some err), w2) \<Rightarrow>
                                 (case memcached_quit_server cfg st w2 of
                                    Inl e \<Rightarrow> Inl e
                                  | Inr (st1, w3) \<Rightarrow>
                                      (let (rc, st2) = memcached_set_errno st1 err
                                       in Inr (rc, st2, w3)))
                             | Inr (GetsockoptError e, w2) \<Rightarrow>
                                 (case memcached_quit_server cfg st w2 of
                                    Inl e \<Rightarrow> Inl e
                                  | Inr (st1, w3) \<Rightarrow>
                                      (let (rc, st2) = memcached_set_errno st1 EINVAL
                                       in Inr (rc, st2, w3))))
                       else (let (rc, st1) = memcached_set_error st MEMCACHED_FAILURE
                             in Inr (rc, st1, w1)))
                 else if active_fd = 0
                 then (let (rc, st1) = memcached_set_error st MEMCACHED_TIMEOUT
                       in Inr (rc, st1, w1))
                 else (let local_errno = errno w1
                       in if local_errno = ERESTART \<or> local_errno = EINTR
                          then io_wait_loop cfg (loop_max - 1) events st w1
                          else (let st1 = (if local_errno = EFAULT \<or> local_errno = ENOMEM
                                           then snd (memcached_set_error st
                                                       MEMCACHED_MEMORY_ALLOCATION_FAILURE)
                                           else st);
                                    st2 = (if local_errno = EFAULT \<or> local_errno = ENOMEM
                                              \<or> local_errno = EINVAL
                                           then snd (memcached_set_error st1
                                                       MEMCACHED_MEMORY_ALLOCATION_FAILURE)
                                           else st1);
                                    st3 = snd (memcached_set_errno st2 local_errno)
                                in io_wait_after_loop cfg st3 w1)))))"

text \<open>\<^verbatim>\<open>io_wait\<close>; \<open>events\<close> is \<^verbatim>\<open>POLLIN\<close> or \<^verbatim>\<open>POLLOUT\<close>.\<close>

definition io_wait ::
  "config \<Rightarrow> memcached_instance_st \<Rightarrow> pollflags \<Rightarrow> world \<Rightarrow>
   fault + (memcached_return_t \<times> memcached_instance_st \<times> world)" where
  "io_wait cfg st events w =
     (case (if POLLOUT events then memcached_purge st w else Inr (True, st, w)) of
        Inl e \<Rightarrow> Inl e
      | Inr (purged, st1, w1) \<Rightarrow>
          if purged = False then Inr (MEMCACHED_FAILURE, st1, w1)
          else (let st2 = (if POLLOUT events
                           then st1\<lparr>io_wait_count_write := io_wait_count_write st1 + 1\<rparr>
                           else st1\<lparr>io_wait_count_read := io_wait_count_read st1 + 1\<rparr>)
                in case root st2 of
                     None \<Rightarrow> Inl NullPointer
                   | Some r \<Rightarrow>
                       if poll_timeout r = 0
                       then (let (rc, st3) = memcached_set_error st2 MEMCACHED_TIMEOUT
                             in Inr (rc, st3, w1))
                       else io_wait_loop cfg 5 events st2 w1))"

definition memcached_io_wait_for_write ::
  "config \<Rightarrow> memcached_instance_st \<Rightarrow> world \<Rightarrow>
   fault + (memcached_return_t \<times> memcached_instance_st \<times> world)" where
  "memcached_io_wait_for_write cfg st w = io_wait cfg st events_POLLOUT w"

definition memcached_io_wait_for_read ::
  "config \<Rightarrow> memcached_instance_st \<Rightarrow> world \<Rightarrow>
   fault + (memcached_return_t \<times> memcached_instance_st \<times> world)" where
  "memcached_io_wait_for_read cfg st w = io_wait cfg st events_POLLIN w"

subsection \<open>The buffered channel: helpers of the flush (io.cc)\<close>

text \<open>
  \<^verbatim>\<open>recv\<close> of at most \<open>len\<close> bytes: the script gives the bytes available, of which the
  call delivers the first \<open>len\<close>; no byte delivered is the return value 0.
\<close>

definition sys_recv :: "int \<Rightarrow> nat \<Rightarrow> world \<Rightarrow> fault + (recv_result \<times> world)" where
  "sys_recv s len w =
     (case recv_results w of
        [] \<Rightarrow> Inl ScriptExhausted
      | r # rs \<Rightarrow>
          (let w1 = w\<lparr>calls := calls w @ [Call_recv s len], recv_results := rs\<rparr>
           in case r of
                RecvData bs \<Rightarrow> Inr (RecvData (take len bs), w1)
              | RecvError e \<Rightarrow> Inr (RecvError e, w1\<lparr>errno := e\<rparr>)))"

text \<open>
  \<^verbatim>\<open>send\<close> of the bytes \<open>bs\<close>: the script gives the number of bytes the kernel is ready
  to take, of which the call takes at most \<open>length bs\<close>. \<open>msg_more\<close> is the \<^verbatim>\<open>MSG_MORE\<close> flag.
\<close>

definition sys_send :: "int \<Rightarrow> byte list \<Rightarrow> bool \<Rightarrow> world \<Rightarrow> fault + (send_result \<times> world)" where
  "sys_send s bs msg_more w =
     (case send_results w of
        [] \<Rightarrow> Inl ScriptExhausted
      | r # rs \<Rightarrow>
          (let w1 = w\<lparr>calls := calls w @ [Call_send s bs msg_more], send_results := rs\<rparr>
           in case r of
                SendCount n \<Rightarrow> Inr (SendCount (min n (length bs)), w1)
              | SendError e \<Rightarrow> Inr (SendError e, w1\<lparr>errno := e\<rparr>)))"

text \<open>Writing the bytes \<open>bs\<close> into a buffer from offset \<open>off\<close> on.\<close>

definition store_bytes :: "byte list \<Rightarrow> nat \<Rightarrow> byte list \<Rightarrow> byte list" where
  "store_bytes buf off bs = take off buf @ bs @ drop (off + length bs) buf"

text \<open>The wrap-around of \<^verbatim>\<open>size_t\<close>.\<close>

definition SIZE_MODULUS :: nat where
  "SIZE_MODULUS = 2 ^ 64"

definition size_sub :: "nat \<Rightarrow> nat \<Rightarrow> nat" where
  "size_sub a b = (a + SIZE_MODULUS - b mod SIZE_MODULUS) mod SIZE_MODULUS"

text \<open>
  \<^verbatim>\<open>repack_input_buffer\<close>. Its loop is \<^verbatim>\<open>do ... while (false)\<close>, so the
  \<^verbatim>\<open>continue\<close> of the \<^verbatim>\<open>EINTR\<close> case leaves it like \<^verbatim>\<open>break\<close>.
\<close>

definition repack_input_buffer ::
  "config \<Rightarrow> memcached_instance_st \<Rightarrow> world \<Rightarrow> fault + (bool \<times> memcached_instance_st \<times> world)" where
  "repack_input_buffer cfg st w =
     (case (if read_ptr st \<noteq> 0
            then (if read_ptr st + read_buffer_length st \<le> MEMCACHED_MAX_BUFFER cfg
                  then Inr (st\<lparr>read_buffer :=
                                  store_bytes (read_buffer st) 0
                                    (take (read_buffer_length st) (drop (read_ptr st) (read_buffer st))),
                                read_ptr := 0,
                                read_data_length := read_buffer_length st\<rparr>)
                  else Inl OutOfBounds)
            else Inr st) of
        Inl e \<Rightarrow> Inl e
      | Inr st1 \<Rightarrow>
          if read_buffer_length st1 \<noteq> MEMCACHED_MAX_BUFFER cfg
          then (case sys_recv (fd st1)
                       (size_sub (MEMCACHED_MAX_BUFFER cfg) (read_data_length st1)) w of
                  Inl e \<Rightarrow> Inl e
                | Inr (RecvData bs, w1) \<Rightarrow>
                    if bs = []
                    then Inr (False, snd (memcached_set_error st1 MEMCACHED_CONNECTION_FAILURE), w1)
                    else if read_ptr st1 + read_data_length st1 + length bs
                              \<le> MEMCACHED_MAX_BUFFER cfg
                    then Inr (True,
                              st1\<lparr>read_buffer :=
                                     store_bytes (read_buffer st1)
                                       (read_ptr st1 + read_data_length st1) bs,
                                   read_data_length := read_data_length st1 + length bs,
                                   read_buffer_length := read_buffer_length st1 + length bs\<rparr>,
                              w1)
                    else Inl OutOfBounds
                | Inr (RecvError e, w1) \<Rightarrow>
                    if errno w1 = EINTR then Inr (False, st1, w1)
                    else if errno w1 = EWOULDBLOCK \<or> errno w1 = EAGAIN \<or> errno w1 = ERESTART
                    then Inr (False, st1, w1)
                    else Inr (False, snd (memcached_set_errno st1 (errno w1)), w1))
          else Inr (False, st1, w))"

text \<open>
  \<^verbatim>\<open>memcached_response\<close> and the callbacks are defined outside src/: their results
  come from the scripts.
\<close>

definition memcached_response ::
  "memcached_instance_st \<Rightarrow> world \<Rightarrow>
   fault + (memcached_return_t \<times> memcached_instance_st \<times> world)" where
  "memcached_response st w =
     (case response_results w of
        [] \<Rightarrow> Inl ScriptExhausted
      | (rc, st1) # rs \<Rightarrow>
          Inr (rc, (case st1 of None \<Rightarrow> st | Some st2 \<Rightarrow> st2), w\<lparr>response_results := rs\<rparr>))"

definition memcached_set_processing_input :: "memcached_instance_st \<Rightarrow> bool \<Rightarrow> memcached_instance_st" where
  "memcached_set_processing_input st b =
     st\<lparr>root := map_option (\<lambda>r. r\<lparr>is_processing_input := b\<rparr>) (root st)\<rparr>"

text \<open>The loop over the callbacks: it stops at the first one that does not return success.\<close>

fun run_callbacks :: "nat \<Rightarrow> world \<Rightarrow> fault + world" where
  "run_callbacks 0 w = Inr w"
| "run_callbacks (Suc n) w =
     (case callback_results w of
        [] \<Rightarrow> Inl ScriptExhausted
      | error # rs \<Rightarrow>
          if error \<noteq> MEMCACHED_SUCCESS then Inr (w\<lparr>callback_results := rs\<rparr>)
          else run_callbacks n (w\<lparr>callback_results := rs\<rparr>))"

definition process_input_buffer ::
  "memcached_instance_st \<Rightarrow> world \<Rightarrow> fault + (bool \<times> memcached_instance_st \<times> world)" where
  "process_input_buffer st w =
     (case root st of
        None \<Rightarrow> Inl NullPointer
      | Some r \<Rightarrow>
         (case callbacks r of
            None \<Rightarrow> Inr (False, st, w)
          | Some number_of_callback \<Rightarrow>
             (case memcached_response (memcached_set_processing_input st True) w of
                Inl e \<Rightarrow> Inl e
              | Inr (error, st1, w1) \<Rightarrow>
                 (let st2 = memcached_set_processing_input st1 False
                  in if error = MEMCACHED_SUCCESS
                     then (case run_callbacks number_of_callback w1 of
                             Inl e \<Rightarrow> Inl e
                           | Inr w2 \<Rightarrow> Inr (True, st2, w2))
                     else Inr (True, st2, w1)))))"

subsection \<open>The buffered channel: flush (io.cc)\<close>

text \<open>
  One transmission of the pending bytes. The socket build calls \<^verbatim>\<open>send\<close>; the MPI
  build posts a receive into the read buffer and sends the bytes with the blocking
  \<^verbatim>\<open>MPI_Send\<close>, after which it takes all of them as sent.
\<close>

definition flush_transmit ::
  "config \<Rightarrow> int \<Rightarrow> byte list \<Rightarrow> bool \<Rightarrow> world \<Rightarrow> fault + (send_result \<times> world)" where
  "flush_transmit cfg s bs with_flush w =
     (if ENABLE_SOCKET_FUNCTIONS cfg then sys_send s bs (\<not> with_flush) w
      else Inr (SendCount (length bs), w\<lparr>calls := calls w @ [Call_MPI_Irecv, Call_MPI_Send bs]\<rparr>))"

text \<open>
  The loop of \<^verbatim>\<open>io_flush\<close>, \<^verbatim>\<open>while (write_length)\<close>, with the offset of
  \<open>local_write_ptr\<close> in the write buffer and \<open>write_length\<close> as arguments. The fuel
  bounds the number of iterations. The result is the returned boolean, the value of
  the out-parameter \<open>error\<close>, the connection and the world.
\<close>

fun io_flush_loop ::
  "config \<Rightarrow> nat \<Rightarrow> bool \<Rightarrow> nat \<Rightarrow> nat \<Rightarrow> memcached_instance_st \<Rightarrow> world \<Rightarrow>
   fault + (bool \<times> memcached_return_t \<times> memcached_instance_st \<times> world)" where
  "io_flush_loop cfg fuel with_flush local_write_ptr write_length st w =
     (if write_length = 0
      then Inr (True, MEMCACHED_SUCCESS, st\<lparr>write_buffer_offset := 0\<rparr>, w)
      else case fuel of
        0 \<Rightarrow> Inl OutOfFuel
      | Suc n \<Rightarrow>
         if \<not> (local_write_ptr + write_length \<le> MEMCACHED_MAX_BUFFER cfg
                \<and> local_write_ptr + write_length \<le> length (write_buffer st))
         then Inl OutOfBounds
         else
          (case flush_transmit cfg (fd st)
                  (take write_length (drop local_write_ptr (write_buffer st))) with_flush w of
             Inl e \<Rightarrow> Inl e
           | Inr (SendCount sent_length, w1) \<Rightarrow>
               io_flush_loop cfg n with_flush (local_write_ptr + sent_length)
                 (write_length - sent_length mod 2 ^ 32)
                 (st\<lparr>io_bytes_sent := io_bytes_sent st + of_nat sent_length\<rparr>) w1
           | Inr (SendError e, w1) \<Rightarrow>
              (let local_errno = errno w1
               in if errno w1 = ENOBUFS
                  then io_flush_loop cfg n with_flush local_write_ptr write_length st w1
                  else if errno w1 = EWOULDBLOCK \<or> errno w1 = EAGAIN
                  then (case repack_input_buffer cfg st w1 of
                          Inl e \<Rightarrow> Inl e
                        | Inr (repacked, st1, w2) \<Rightarrow>
                           (case (if repacked then Inr (True, st1, w2)
                                  else process_input_buffer st1 w2) of
                              Inl e \<Rightarrow> Inl e
                            | Inr (processed, st2, w3) \<Rightarrow>
                               if processed
                               then io_flush_loop cfg n with_flush local_write_ptr write_length st2 w3
                               else (case io_wait cfg st2 events_POLLOUT w3 of
                                       Inl e \<Rightarrow> Inl e
                                     | Inr (rc, st3, w4) \<Rightarrow>
                                        if memcached_success rc
                                        then io_flush_loop cfg n with_flush local_write_ptr
                                               write_length st3 w4
                                        else if rc = MEMCACHED_TIMEOUT
                                        then Inr (False, MEMCACHED_SUCCESS, st3, w4)
                                        else (case memcached_quit_server cfg st3 w4 of
                                                Inl e \<Rightarrow> Inl e
                                              | Inr (st4, w5) \<Rightarrow>
                                                 (let (error, st5) = memcached_set_errno st4 local_errno
                                                  in Inr (False, error, st5, w5))))))
                  else (case memcached_quit_server cfg st w1 of
                          Inl e \<Rightarrow> Inl e
                        | Inr (st1, w2) \<Rightarrow>
                           (let (error, st2) = memcached_set_errno st1 local_errno
                            in Inr (False, error, st2, w2))))))"

text \<open>
  \<^verbatim>\<open>io_flush\<close>. The out-parameter \<open>error\<close> is \<open>None\<close> when the function returns before
  assigning it.
\<close>

definition io_flush ::
  "config \<Rightarrow> nat \<Rightarrow> memcached_instance_st \<Rightarrow> bool \<Rightarrow> world \<Rightarrow>
   fault + (bool \<times> memcached_return_t option \<times> memcached_instance_st \<times> world)" where
  "io_flush cfg fuel st with_flush w =
     (case memcached_purge st w of
        Inl e \<Rightarrow> Inl e
      | Inr (purged, st1, w1) \<Rightarrow>
          if purged = False then Inr (False, None, st1, w1)
          else (case io_flush_loop cfg fuel with_flush 0 (write_buffer_offset st1) st1 w1 of
                  Inl e \<Rightarrow> Inl e
                | Inr (flushed, error, st2, w2) \<Rightarrow> Inr (flushed, Some error, st2, w2)))"

subsection \<open>The buffered channel: refill and read (io.cc)\<close>

text \<open>
  The wait loop on the MPI request, \<^verbatim>\<open>while (!flag) { MPI_Test(...); if (!flag) usleep(10); }\<close>,
  over the script of \<^verbatim>\<open>MPI_Test\<close> results: \<open>None\<close> is "not complete yet", and a completed
  request gives the bytes it received. The result is those bytes, the calls made and the
  rest of the script; \<open>None\<close> when the script ends before the request completes.
\<close>

fun mpi_test_loop ::
  "byte list option list \<Rightarrow> syscall list \<Rightarrow> (byte list \<times> syscall list \<times> byte list option list) option" where
  "mpi_test_loop [] made = None"
| "mpi_test_loop (None # rs) made = mpi_test_loop rs (made @ [Call_MPI_Test, Call_usleep])"
| "mpi_test_loop (Some bs # rs) made = Some (bs, made @ [Call_MPI_Test], rs)"

text \<open>
  \<^verbatim>\<open>strlen\<close> of the read buffer: the number of bytes before the first zero byte. Without
  a zero byte in the buffer the call reads past the array.
\<close>

definition c_strlen :: "byte list \<Rightarrow> nat option" where
  "c_strlen buf = (if 0 \<in> set buf then Some (length (takeWhile (\<lambda>b. b \<noteq> 0) buf)) else None)"

text \<open>
  The code of \<^verbatim>\<open>_io_fill\<close> after its receive loop: it waits for the MPI request, then
  takes the length of the string in the read buffer as the number of bytes read.
\<close>

definition io_fill_finish ::
  "config \<Rightarrow> memcached_instance_st \<Rightarrow> world \<Rightarrow>
   fault + (memcached_return_t \<times> memcached_instance_st \<times> world)" where
  "io_fill_finish cfg st w =
     (case mpi_test_loop (mpi_test_results w) [] of
        None \<Rightarrow> Inl ScriptExhausted
      | Some (bs, made, rest) \<Rightarrow>
          (let w1 = w\<lparr>calls := calls w @ made, mpi_test_results := rest\<rparr>;
               buf = store_bytes (read_buffer st) 0 (take (MEMCACHED_MAX_BUFFER cfg) bs)
           in case c_strlen buf of
                None \<Rightarrow> Inl OutOfBounds
              | Some data_read \<Rightarrow>
                  Inr (MEMCACHED_SUCCESS,
                       st\<lparr>read_buffer := buf,
                          io_bytes_sent := 0,
                          read_data_length := data_read,
                          read_buffer_length := data_read,
                          read_ptr := 0\<rparr>,
                       w1)))"

text \<open>
  \<^verbatim>\<open>_io_fill\<close>: the loop \<^verbatim>\<open>do ... while (data_read <= 0)\<close>, then \<open>io_fill_finish\<close>. The
  fuel bounds the number of iterations. The socket build receives into the start of the
  read buffer; the MPI build receives nothing here and sets \<open>data_read\<close> to 20. The
  assertion of the \<^verbatim>\<open>EBADF\<close> case is also reached from \<^verbatim>\<open>ENOTCONN\<close> and \<^verbatim>\<open>ENOTSOCK\<close>,
  which fall through to it.
\<close>

fun io_fill ::
  "config \<Rightarrow> nat \<Rightarrow> memcached_instance_st \<Rightarrow> world \<Rightarrow>
   fault + (memcached_return_t \<times> memcached_instance_st \<times> world)" where
  "io_fill cfg 0 st w = Inl OutOfFuel"
| "io_fill cfg (Suc n) st w =
     (if ENABLE_SOCKET_FUNCTIONS cfg
      then (case sys_recv (fd st) (MEMCACHED_MAX_BUFFER cfg) w of
              Inl e \<Rightarrow> Inl e
            | Inr (RecvError e, w1) \<Rightarrow>
               (let local_errno = errno w1
                in if errno w1 = EINTR then io_fill cfg n st w1
                   else if errno w1 = ETIMEDOUT \<or> errno w1 = EWOULDBLOCK \<or> errno w1 = EAGAIN
                           \<or> errno w1 = ERESTART
                   then (case io_wait cfg st events_POLLIN w1 of
                           Inl e \<Rightarrow> Inl e
                         | Inr (io_wait_ret, st1, w2) \<Rightarrow>
                             if memcached_success io_wait_ret then io_fill cfg n st1 w2
                             else Inr (io_wait_ret, st1, w2))
                   else if (errno w1 = ENOTCONN \<or> errno w1 = ENOTSOCK \<or> errno w1 = EBADF)
                           \<and> \<not> NDEBUG cfg \<and> fd st = INVALID_SOCKET
                   then Inl AssertionFailed
                   else (case memcached_quit_server cfg st w1 of
                           Inl e \<Rightarrow> Inl e
                         | Inr (st1, w2) \<Rightarrow>
                            (let st2 = snd (memcached_set_errno st1 local_errno)
                             in Inr (memcached_instance_error_return st2, st2, w2))))
            | Inr (RecvData bs, w1) \<Rightarrow>
               if bs = []
               then (case memcached_quit_server cfg st w1 of
                       Inl e \<Rightarrow> Inl e
                     | Inr (st1, w2) \<Rightarrow>
                        (let (rc, st2) = memcached_set_error st1 MEMCACHED_CONNECTION_FAILURE
                         in Inr (rc, st2, w2)))
               else io_fill_finish cfg
                      (st\<lparr>read_buffer := store_bytes (read_buffer st) 0 bs,
                          io_wait_count_bytes_read :=
                            io_wait_count_bytes_read st + of_nat (length bs)\<rparr>) w1)
      else io_fill_finish cfg
             (st\<lparr>io_wait_count_bytes_read := io_wait_count_bytes_read st + 20\<rparr>) w)"

text \<open>The decrement of a \<^verbatim>\<open>size_t\<close>, which wraps at zero.\<close>

definition size_dec :: "nat \<Rightarrow> nat" where
  "size_dec n = (if n = 0 then SIZE_MODULUS - 1 else n - 1)"

text \<open>
  The loop of \<^verbatim>\<open>memcached_io_read\<close>, \<^verbatim>\<open>while (length)\<close>; \<open>out\<close> is what has been copied
  to the caller's buffer so far. The result is the return code, the out-parameter
  \<open>nread\<close>, the bytes copied, the connection and the world.
\<close>

fun io_read_loop ::
  "config \<Rightarrow> nat \<Rightarrow> nat \<Rightarrow> byte list \<Rightarrow> memcached_instance_st \<Rightarrow> world \<Rightarrow>
   fault + (memcached_return_t \<times> int option \<times> byte list \<times> memcached_instance_st \<times> world)" where
  "io_read_loop cfg fuel len out st w =
     (if len = 0 then Inr (MEMCACHED_SUCCESS, Some (int (length out)), out, st, w)
      else case fuel of
        0 \<Rightarrow> Inl OutOfFuel
      | Suc n \<Rightarrow>
         (case (if read_buffer_length st = 0 then io_fill cfg n st w
                else Inr (MEMCACHED_SUCCESS, st, w)) of
            Inl e \<Rightarrow> Inl e
          | Inr (io_fill_ret, st1, w1) \<Rightarrow>
             if memcached_fatal io_fill_ret then Inr (io_fill_ret, Some (- 1), out, st1, w1)
             else if len > 1
             then (let difference = (if len > read_buffer_length st1
                                     then read_buffer_length st1 else len)
                   in if read_ptr st1 + difference \<le> MEMCACHED_MAX_BUFFER cfg
                         \<and> read_ptr st1 + difference \<le> length (read_buffer st1)
                      then io_read_loop cfg n (len - difference)
                             (out @ take difference (drop (read_ptr st1) (read_buffer st1)))
                             (st1\<lparr>read_ptr := read_ptr st1 + difference,
                                  read_buffer_length := read_buffer_length st1 - difference\<rparr>) w1
                      else Inl OutOfBounds)
             else (if read_ptr st1 < MEMCACHED_MAX_BUFFER cfg
                      \<and> read_ptr st1 < length (read_buffer st1)
                   then Inr (MEMCACHED_SUCCESS, Some (int (length out) + 1),
                             out @ [read_buffer st1 ! read_ptr st1],
                             st1\<lparr>read_ptr := read_ptr st1 + 1,
                                  read_buffer_length := size_dec (read_buffer_length st1)\<rparr>, w1)
                   else Inl OutOfBounds)))"

text \<open>
  \<^verbatim>\<open>memcached_io_read\<close>. An enabled assertion requires a TCP root; the socket build
  refuses a connection without descriptor, leaving \<open>nread\<close> unassigned.
\<close>

definition memcached_io_read ::
  "config \<Rightarrow> nat \<Rightarrow> memcached_instance_st \<Rightarrow> nat \<Rightarrow> world \<Rightarrow>
   fault + (memcached_return_t \<times> int option \<times> byte list \<times> memcached_instance_st \<times> world)" where
  "memcached_io_read cfg fuel st len w =
     (if \<not> NDEBUG cfg \<and> root st = None then Inl NullPointer
      else if \<not> NDEBUG cfg \<and> (case root st of None \<Rightarrow> False | Some r \<Rightarrow> memcached_is_udp r)
      then Inl AssertionFailed
      else if ENABLE_SOCKET_FUNCTIONS cfg \<and> fd st = INVALID_SOCKET
      then Inr (MEMCACHED_CONNECTION_FAILURE, None, [], st, w)
      else io_read_loop cfg fuel len [] st w)"

subsection \<open>The buffered channel: write (io.cc)\<close>

text \<open>
  The loop of \<^verbatim>\<open>_io_write\<close>, \<^verbatim>\<open>while (length)\<close>, followed by the final flush. \<open>buffer\<close>
  is the caller's buffer (\<open>None\<close> for a null pointer), \<open>pos\<close> the offset of \<open>buffer_ptr\<close>
  in it, \<open>len\<close> the remaining \<open>length\<close>. A chunk that does not fit between the write
  offset and the end of the write buffer, or that is not there in the caller's buffer,
  is an access outside an array. The result is the returned boolean, the out-parameter
  \<open>written\<close>, the connection and the world. \<open>io_write_chunk\<close> is the value of
  \<open>should_write\<close> in one iteration.
\<close>

definition io_write_chunk :: "config \<Rightarrow> nat \<Rightarrow> memcached_instance_st \<Rightarrow> nat" where
  "io_write_chunk cfg len st =
     (let buffer_end = MEMCACHED_MAX_BUFFER cfg;
          should_write = size_sub buffer_end (write_buffer_offset st)
      in if should_write < len then should_write else len)"

fun io_write_loop ::
  "config \<Rightarrow> nat \<Rightarrow> byte list option \<Rightarrow> nat \<Rightarrow> nat \<Rightarrow> bool \<Rightarrow> nat \<Rightarrow>
   memcached_instance_st \<Rightarrow> world \<Rightarrow> fault + (bool \<times> nat \<times> memcached_instance_st \<times> world)" where
  "io_write_loop cfg fuel buffer pos len with_flush original_length st w =
     (if len = 0
      then (if with_flush
            then (case io_flush cfg fuel st with_flush w of
                    Inl e \<Rightarrow> Inl e
                  | Inr (flushed, rc, st1, w1) \<Rightarrow>
                      if flushed = False then Inr (False, original_length - len, st1, w1)
                      else Inr (True, original_length - len, st1, w1))
            else Inr (True, original_length - len, st, w))
      else case fuel of
        0 \<Rightarrow> Inl OutOfFuel
      | Suc n \<Rightarrow>
         (case buffer of
            None \<Rightarrow> Inl NullPointer
          | Some src \<Rightarrow>
             if write_buffer_offset st + io_write_chunk cfg len st \<le> MEMCACHED_MAX_BUFFER cfg
                \<and> pos + io_write_chunk cfg len st \<le> length src
             then (if write_buffer_offset st + io_write_chunk cfg len st = MEMCACHED_MAX_BUFFER cfg
                   then (case io_flush cfg n
                                (st\<lparr>write_buffer :=
                                       store_bytes (write_buffer st) (write_buffer_offset st)
                                         (take (io_write_chunk cfg len st) (drop pos src)),
                                    write_buffer_offset :=
                                      write_buffer_offset st + io_write_chunk cfg len st\<rparr>)
                                with_flush w of
                           Inl e \<Rightarrow> Inl e
                         | Inr (flushed, rc, st2, w1) \<Rightarrow>
                             if flushed = False
                             then Inr (False, original_length - (len - io_write_chunk cfg len st),
                                       st2, w1)
                             else io_write_loop cfg n buffer (pos + io_write_chunk cfg len st)
                                    (len - io_write_chunk cfg len st) with_flush original_length
                                    st2 w1)
                   else io_write_loop cfg n buffer (pos + io_write_chunk cfg len st)
                          (len - io_write_chunk cfg len st) with_flush original_length
                          (st\<lparr>write_buffer :=
                                 store_bytes (write_buffer st) (write_buffer_offset st)
                                   (take (io_write_chunk cfg len st) (drop pos src)),
                              write_buffer_offset :=
                                write_buffer_offset st + io_write_chunk cfg len st\<rparr>) w)
             else Inl OutOfBounds))"

text \<open>
  \<^verbatim>\<open>_io_write\<close>. The two assertions require a descriptor and a TCP root.
\<close>

definition io_write ::
  "config \<Rightarrow> nat \<Rightarrow> memcached_instance_st \<Rightarrow> byte list option \<Rightarrow> nat \<Rightarrow> bool \<Rightarrow> world \<Rightarrow>
   fault + (bool \<times> nat \<times> memcached_instance_st \<times> world)" where
  "io_write cfg fuel st buffer len with_flush w =
     (if \<not> NDEBUG cfg \<and> fd st = INVALID_SOCKET then Inl AssertionFailed
      else if \<not> NDEBUG cfg \<and> root st = None then Inl NullPointer
      else if \<not> NDEBUG cfg \<and> (case root st of None \<Rightarrow> False | Some r \<Rightarrow> memcached_is_udp r)
      then Inl AssertionFailed
      else io_write_loop cfg fuel buffer 0 len with_flush len st w)"

text \<open>
  The two overloads of \<^verbatim>\<open>memcached_io_write\<close>: the one that only flushes, and the one
  that writes a buffer and returns the number of bytes written or -1.
\<close>

definition memcached_io_write ::
  "config \<Rightarrow> nat \<Rightarrow> memcached_instance_st \<Rightarrow> world \<Rightarrow>
   fault + (bool \<times> memcached_instance_st \<times> world)" where
  "memcached_io_write cfg fuel st w =
     (case io_write cfg fuel st None 0 True w of
        Inl e \<Rightarrow> Inl e
      | Inr (ok, written, st1, w1) \<Rightarrow> Inr (ok, st1, w1))"

definition memcached_io_write_buffer ::
  "config \<Rightarrow> nat \<Rightarrow> memcached_instance_st \<Rightarrow> byte list option \<Rightarrow> nat \<Rightarrow> bool \<Rightarrow> world \<Rightarrow>
   fault + (int \<times> memcached_instance_st \<times> world)" where
  "memcached_io_write_buffer cfg fuel st buffer len with_flush w =
     (case io_write cfg fuel st buffer len with_flush w of
        Inl e \<Rightarrow> Inl e
      | Inr (ok, written, st1, w1) \<Rightarrow>
          if ok = False then Inr (- 1, st1, w1) else Inr (int written, st1, w1))"

subsection \<open>The scatter-gather writer (io.cc)\<close>

text \<open>
  The loop of \<^verbatim>\<open>memcached_io_writev\<close> over the parts, with the two running sums. The
  boolean of the result is \<open>False\<close> when the loop was left by the \<^verbatim>\<open>return false\<close> of a
  failed part. The sums are sums of part lengths, far below the range of \<^verbatim>\<open>ssize_t\<close>.
\<close>

fun io_writev_loop ::
  "config \<Rightarrow> nat \<Rightarrow> libmemcached_io_vector_st list \<Rightarrow> nat \<Rightarrow> nat \<Rightarrow>
   memcached_instance_st \<Rightarrow> world \<Rightarrow> fault + (bool \<times> nat \<times> nat \<times> memcached_instance_st \<times> world)" where
  "io_writev_loop cfg fuel [] complete_total total_written st w = Inr (True, complete_total, total_written, st, w)"
| "io_writev_loop cfg fuel (v # vector) complete_total total_written st w =
     (if iov_length v \<noteq> 0
      then (case io_write cfg fuel st (iov_buffer v) (iov_length v) False w of
              Inl e \<Rightarrow> Inl e
            | Inr (ok, written, st1, w1) \<Rightarrow>
                if ok = False
                then Inr (False, complete_total + iov_length v, total_written, st1, w1)
                else io_writev_loop cfg fuel vector (complete_total + iov_length v)
                       (total_written + written) st1 w1)
      else io_writev_loop cfg fuel vector (complete_total + iov_length v) total_written st w)"

definition memcached_io_writev ::
  "config \<Rightarrow> nat \<Rightarrow> memcached_instance_st \<Rightarrow> libmemcached_io_vector_st list \<Rightarrow> nat \<Rightarrow> bool \<Rightarrow>
   world \<Rightarrow> fault + (bool \<times> memcached_instance_st \<times> world)" where
  "memcached_io_writev cfg fuel st vector number_of with_flush w =
     (if length vector < number_of then Inl OutOfBounds
      else case io_writev_loop cfg fuel (take number_of vector) 0 0 st w of
             Inl e \<Rightarrow> Inl e
           | Inr (ok, complete_total, total_written, st1, w1) \<Rightarrow>
               if ok = False then Inr (False, st1, w1)
               else if with_flush
               then (case memcached_io_write cfg fuel st1 w1 of
                       Inl e \<Rightarrow> Inl e
                     | Inr (flushed, st2, w2) \<Rightarrow>
                         if flushed = False then Inr (False, st2, w2)
                         else Inr (complete_total = total_written, st2, w2))
               else Inr (complete_total = total_written, st1, w1))"

subsection \<open>The line read (io.cc)\<close>

definition NEWLINE :: byte where
  "NEWLINE = 10"

text \<open>
  The inner loop of \<^verbatim>\<open>memcached_io_readline\<close>: it copies buffered bytes to the
  destination while there are some, the destination has room and the line is not
  complete. \<open>out\<close> is what the destination holds so far.
\<close>

function readline_copy ::
  "config \<Rightarrow> nat \<Rightarrow> memcached_instance_st \<Rightarrow> byte list \<Rightarrow> nat \<Rightarrow> bool \<Rightarrow>
   fault + (memcached_instance_st \<times> byte list \<times> nat \<times> bool)" where
  "readline_copy cfg max_size st out total_nr line_complete =
     (if read_buffer_length st \<noteq> 0 \<and> total_nr < max_size \<and> line_complete = False
      then (if read_ptr st < MEMCACHED_MAX_BUFFER cfg \<and> read_ptr st < length (read_buffer st)
            then readline_copy cfg max_size
                   (st\<lparr>read_buffer_length := read_buffer_length st - 1,
                       read_ptr := read_ptr st + 1\<rparr>)
                   (out @ [read_buffer st ! read_ptr st])
                   (total_nr + 1)
                   (read_buffer st ! read_ptr st = NEWLINE)
            else Inl OutOfBounds)
      else Inr (st, out, total_nr, line_complete))"
  by pat_completeness auto
termination
  by (relation "measure (\<lambda>(cfg, max_size, st, out, total_nr, line_complete). read_buffer_length st)")
     auto

text \<open>
  The outer loop of \<^verbatim>\<open>memcached_io_readline\<close>, \<^verbatim>\<open>while (line_complete == false)\<close>,
  entered with the line incomplete. With an empty read buffer it reads one byte through
  \<^verbatim>\<open>memcached_io_read\<close>, which stores it in the destination; a destination that is
  already full is overrun by that byte. The fuel bounds the number of iterations. The
  result is the return code, the out-parameter \<open>total_nr\<close>, the bytes stored in the
  destination, the connection and the world.
\<close>

fun readline_loop ::
  "config \<Rightarrow> nat \<Rightarrow> nat \<Rightarrow> memcached_instance_st \<Rightarrow> byte list \<Rightarrow> nat \<Rightarrow> world \<Rightarrow>
   fault + (memcached_return_t \<times> nat \<times> byte list \<times> memcached_instance_st \<times> world)" where
  "readline_loop cfg 0 max_size st out total_nr w = Inl OutOfFuel"
| "readline_loop cfg (Suc n) max_size st out total_nr w =
     (case (if read_buffer_length st = 0
            then (case memcached_io_read cfg n st 1 w of
                    Inl e \<Rightarrow> Inl e
                  | Inr (rc, nread, bytes, st1, w1) \<Rightarrow>
                      if memcached_failed rc \<and> rc = MEMCACHED_IN_PROGRESS
                      then (case memcached_quit_server cfg st1 w1 of
                              Inl e \<Rightarrow> Inl e
                            | Inr (st2, w2) \<Rightarrow>
                                (let (rc1, st3) = memcached_set_error st2 rc
                                 in Inr (Some rc1, st3, out, total_nr, False, w2)))
                      else if memcached_failed rc
                      then Inr (Some rc, st1, out, total_nr, False, w1)
                      else (case bytes of
                              [] \<Rightarrow> Inl OutOfBounds
                            | b # _ \<Rightarrow>
                                if total_nr < max_size
                                then Inr (None, st1, out @ [b], total_nr + 1, b = NEWLINE, w1)
                                else Inl OutOfBounds))
            else Inr (None, st, out, total_nr, False, w)) of
        Inl e \<Rightarrow> Inl e
      | Inr (Some rc, st1, out1, total_nr1, line_complete1, w1) \<Rightarrow>
          Inr (rc, total_nr1, out1, st1, w1)
      | Inr (None, st1, out1, total_nr1, line_complete1, w1) \<Rightarrow>
          (case readline_copy cfg max_size st1 out1 total_nr1 line_complete1 of
             Inl e \<Rightarrow> Inl e
           | Inr (st2, out2, total_nr2, line_complete2) \<Rightarrow>
               if total_nr2 = max_size then Inr (MEMCACHED_PROTOCOL_ERROR, total_nr2, out2, st2, w1)
               else if line_complete2 then Inr (MEMCACHED_SUCCESS, total_nr2, out2, st2, w1)
               else readline_loop cfg n max_size st2 out2 total_nr2 w1))"

text \<open>\<^verbatim>\<open>memcached_io_readline\<close>, with a destination of capacity \<open>max_size\<close> (the parameter \<^verbatim>\<open>size\<close>).\<close>

definition memcached_io_readline ::
  "config \<Rightarrow> nat \<Rightarrow> memcached_instance_st \<Rightarrow> nat \<Rightarrow> world \<Rightarrow>
   fault + (memcached_return_t \<times> nat \<times> byte list \<times> memcached_instance_st \<times> world)" where
  "memcached_io_readline cfg fuel st max_size w = readline_loop cfg fuel max_size st [] 0 w"

subsection \<open>The request sender (do.cc)\<close>

text \<open>
  \<^verbatim>\<open>memcached_connect\<close> is defined outside src/: its result and its effect on the
  connection come from the script. \<^verbatim>\<open>memcached_is_replying\<close> and
  \<^verbatim>\<open>memcached_server_response_increment\<close> are the macros that read the reply flag of
  the root and increment the pending-response count.
\<close>

definition memcached_connect ::
  "memcached_instance_st \<Rightarrow> world \<Rightarrow>
   fault + (memcached_return_t \<times> memcached_instance_st \<times> world)" where
  "memcached_connect st w =
     (case connect_results w of
        [] \<Rightarrow> Inl ScriptExhausted
      | (rc, st1) # rs \<Rightarrow>
          Inr (rc, (case st1 of None \<Rightarrow> st | Some st2 \<Rightarrow> st2), w\<lparr>connect_results := rs\<rparr>))"

definition memcached_is_replying :: "memcached_st \<Rightarrow> bool" where
  "memcached_is_replying r = flags_reply r"

definition memcached_server_response_increment :: "memcached_instance_st \<Rightarrow> memcached_instance_st" where
  "memcached_server_response_increment st = st\<lparr>cursor_active := cursor_active st + 1\<rparr>"

text \<open>
  The branch of \<^verbatim>\<open>memcached_vdo\<close> taken when \<^verbatim>\<open>memcached_io_writev\<close> has failed and
  the last recorded error of the root \<open>r\<close> is success: an assertion, then the write
  failure is recorded and returned.
\<close>

definition vdo_unrecorded_failure ::
  "config \<Rightarrow> memcached_st \<Rightarrow> memcached_instance_st \<Rightarrow>
   fault + (memcached_return_t \<times> memcached_instance_st)" where
  "vdo_unrecorded_failure cfg r st =
     (if \<not> NDEBUG cfg \<and> \<not> (memcached_last_error r \<noteq> MEMCACHED_SUCCESS)
      then Inl AssertionFailed
      else Inr (memcached_set_error st MEMCACHED_WRITE_FAILURE))"

text \<open>
  The code of \<^verbatim>\<open>memcached_vdo\<close> after \<^verbatim>\<open>memcached_io_writev\<close> on the TCP path, given
  the result \<open>sent_success\<close> of the latter and the root \<open>r\<close> of the connection.
\<close>

definition vdo_after_writev ::
  "config \<Rightarrow> bool \<Rightarrow> memcached_st \<Rightarrow> memcached_instance_st \<Rightarrow>
   fault + (memcached_return_t \<times> memcached_instance_st)" where
  "vdo_after_writev cfg sent_success r st =
     (if sent_success = False
      then (if \<not> NDEBUG cfg \<and> \<not> (memcached_last_error r = MEMCACHED_SUCCESS)
            then Inl AssertionFailed
            else if memcached_last_error r = MEMCACHED_SUCCESS
            then vdo_unrecorded_failure cfg r st
            else Inr (memcached_last_error r, st))
      else if memcached_is_replying r
      then Inr (MEMCACHED_SUCCESS, memcached_server_response_increment st)
      else Inr (MEMCACHED_SUCCESS, st))"

text \<open>
  \<^verbatim>\<open>memcached_vdo\<close>. The connect step belongs to the socket build. The vector is part
  of the result because the UDP path writes its first slot.
\<close>

definition memcached_vdo ::
  "config \<Rightarrow> nat \<Rightarrow> memcached_instance_st \<Rightarrow> libmemcached_io_vector_st list \<Rightarrow> nat \<Rightarrow> bool \<Rightarrow>
   world \<Rightarrow>
   fault + (memcached_return_t \<times> libmemcached_io_vector_st list \<times> memcached_instance_st \<times> world)" where
  "memcached_vdo cfg fuel st vector count with_flush w =
     (case (if ENABLE_SOCKET_FUNCTIONS cfg then memcached_connect st w
            else Inr (MEMCACHED_SUCCESS, st, w)) of
        Inl e \<Rightarrow> Inl e
      | Inr (rc, st1, w1) \<Rightarrow>
          if memcached_failed rc
          then (if \<not> NDEBUG cfg \<and> error_messages st1 = [] then Inl AssertionFailed
                else Inr (rc, vector, st1, w1))
          else (case root st1 of
                  None \<Rightarrow> Inl NullPointer
                | Some r \<Rightarrow>
                    if memcached_is_udp r then vdo_udp cfg st1 vector count w1
                    else (case memcached_io_writev cfg fuel st1 vector count with_flush w1 of
                            Inl e \<Rightarrow> Inl e
                          | Inr (sent_success, st2, w2) \<Rightarrow>
                              (case root st2 of
                                 None \<Rightarrow> Inl NullPointer
                               | Some r2 \<Rightarrow>
                                   (case vdo_after_writev cfg sent_success r2 st2 of
                                      Inl e \<Rightarrow> Inl e
                                    | Inr (rc2, st3) \<Rightarrow> Inr (rc2, vector, st3, w2))))))"

section \<open>Notions used in the statements\<close>

text \<open>The number of \<^verbatim>\<open>poll\<close> calls in the log of a world.\<close>

fun is_Call_poll :: "syscall \<Rightarrow> bool" where
  "is_Call_poll (Call_poll fds timeout) = True"
| "is_Call_poll c = False"

abbreviation polls_made :: "world \<Rightarrow> nat" where
  "polls_made w \<equiv> length (filter is_Call_poll (calls w))"

text \<open>
  A transient result of the readiness wait on one descriptor: \<^verbatim>\<open>poll\<close> fails with
  \<^verbatim>\<open>EINTR\<close> (or \<^verbatim>\<open>ERESTART\<close>), or it reports an error condition on the descriptor and
  neither a hang-up nor a readiness that was asked for. In the second case the code asks
  for the socket error (\<open>asks_socket_error\<close>), and the wait is spurious when that is zero.
\<close>

definition transient_poll_result :: "pollflags \<Rightarrow> poll_result \<Rightarrow> bool" where
  "transient_poll_result events p =
     (case p of
        PollError e \<Rightarrow> e = EINTR \<or> e = ERESTART
      | PollRevents revs \<Rightarrow>
          (case revs of
             [] \<Rightarrow> False
           | f # _ \<Rightarrow> POLLERR f \<and> \<not> POLLHUP f \<and> \<not> (POLLIN f \<and> POLLIN events)
                        \<and> \<not> (POLLOUT f \<and> POLLOUT events)))"

definition asks_socket_error :: "poll_result \<Rightarrow> bool" where
  "asks_socket_error p = (case p of PollError e \<Rightarrow> False | PollRevents revs \<Rightarrow> True)"

text \<open>
  What the line read has stored in a destination of capacity \<open>max_size\<close>: \<open>total_nr\<close>
  bytes, not more than the capacity, with a line terminator as the last byte and nowhere
  else when the line is complete, and with no terminator at all when it is not.
\<close>

definition line_so_far :: "nat \<Rightarrow> byte list \<Rightarrow> nat \<Rightarrow> bool \<Rightarrow> bool" where
  "line_so_far max_size out total_nr line_complete \<longleftrightarrow>
     length out = total_nr \<and> total_nr \<le> max_size \<and>
     (if line_complete then out \<noteq> [] \<and> last out = NEWLINE \<and> NEWLINE \<notin> set (butlast out)
      else NEWLINE \<notin> set out)"

section \<open>Concrete connections for the examples\<close>

text \<open>
  A configuration with small buffers, a TCP root, a connected connection with empty
  buffers and no recorded error, and a world in which no call has been made and every
  script is empty. The examples below update them field by field.
\<close>

definition example_config :: config where
  "example_config =
     \<lparr>MEMCACHED_MAX_BUFFER = 16, UDP_DATAGRAM_HEADER_LENGTH = 8,
      ENABLE_SOCKET_FUNCTIONS = True, NDEBUG = False\<rparr>"

definition example_root :: memcached_st where
  "example_root =
     \<lparr>poll_timeout = 5000, flags_use_udp = False, flags_reply = True, callbacks = None,
      is_processing_input = False, memc_error_messages = []\<rparr>"

definition example_instance :: memcached_instance_st where
  "example_instance =
     \<lparr>fd = 3, state = MEMCACHED_SERVER_STATE_CONNECTED, is_shutting_down = False,
      read_buffer = replicate 16 0, read_ptr = 0, read_buffer_length = 0, read_data_length = 0,
      write_buffer = replicate 16 0, write_buffer_offset = 0,
      io_bytes_sent = 0, io_wait_count_read = 0, io_wait_count_write = 0,
      io_wait_count_bytes_read = 0, cursor_active = 0,
      major_version = 1, minor_version = 4, micro_version = 5, udp_message_id = 0,
      error_messages = [], root = Some example_root\<rparr>"

definition example_world :: world where
  "example_world =
     \<lparr>errno = EOTHER 0, calls = [], shutdown_results = [], recv_results = [], send_results = [],
      sendmsg_results = [], poll_results = [], getsockopt_results = [], mpi_test_results = [],
      purge_results = [], response_results = [], callback_results = [], connect_results = []\<rparr>"

definition example_udp_instance :: memcached_instance_st where
  "example_udp_instance =
     example_instance\<lparr>write_buffer_offset := 8,
                       root := Some (example_root\<lparr>flags_use_udp := True\<rparr>)\<rparr>"

text \<open>A request of two parts, the first one being the empty slot kept for the UDP header.\<close>

definition example_vector :: "libmemcached_io_vector_st list" where
  "example_vector =
     [\<lparr>iov_buffer = None, iov_length = 0\<rparr>, \<lparr>iov_buffer = Some [103, 101, 116], iov_length = 3\<rparr>]"

definition example_POLLERR :: pollflags where
  "example_POLLERR = no_events\<lparr>POLLERR := True\<rparr>"

text \<open>A connection whose read buffer holds the unread line \<^verbatim>\<open>ab\n\<close>.\<close>

definition example_line_instance :: memcached_instance_st where
  "example_line_instance =
     example_instance\<lparr>read_buffer := [97, 98, 10] @ replicate 13 0,
                      read_buffer_length := 3, read_data_length := 3\<rparr>"

section \<open>Properties\<close>

subsection \<open>Connection lifecycle\<close>




subsection \<open>The UDP framer\<close>

declare vdo_udp_loop.simps [simp del]

lemma sys_sendmsg_cases:
  "sys_sendmsg s iov w = Inr (r, w1) \<Longrightarrow>
     sendmsg_results w = r # sendmsg_results w1 \<and> calls w1 = calls w @ [Call_sendmsg s iov]"
  by (auto simp: sys_sendmsg_def split: list.splits)

lemma vdo_udp_loop_trace:
  "vdo_udp_loop retry iov st w = Inr (rc, st', w') \<Longrightarrow>
   \<exists>used. sendmsg_results w = used @ sendmsg_results w' \<and>
          calls w' = calls w @ replicate (length used) (Call_sendmsg (fd st) iov) \<and>
          length used \<le> retry - 1 \<and>
          (\<forall>r \<in> set (butlast used). r = SendCount 0) \<and>
          (used = [] \<or> (\<exists>n. last used = SendCount n) \<longrightarrow>
             rc = MEMCACHED_SUCCESS \<and> st' = st) \<and>
          (used \<noteq> [] \<and> last used = SendError EMSGSIZE \<longrightarrow>
             rc = MEMCACHED_WRITE_FAILURE \<and> st' = record_error (MEMCACHED_WRITE_FAILURE, None) st) \<and>
          (\<forall>e. used \<noteq> [] \<and> last used = SendError e \<and> e \<noteq> EMSGSIZE \<longrightarrow>
             rc = MEMCACHED_ERRNO \<and> st' = record_error (MEMCACHED_ERRNO, Some e) st)"
proof (induction retry iov st w rule: vdo_udp_loop.induct)
  case (1 retry iov st w)
  show ?case
  proof (cases "retry - 1 = 0")
    case True
    with "1.prems" show ?thesis
      by (simp add: vdo_udp_loop.simps)
  next
    case False
    from "1.prems" False obtain r w1 where s: "sys_sendmsg (fd st) iov w = Inr (r, w1)"
      by (auto simp: vdo_udp_loop.simps split: sum.splits)
    note tr = sys_sendmsg_cases [OF s]
    show ?thesis
    proof (cases r)
      case (SendCount n)
      show ?thesis
      proof (cases "n > 0")
        case True
        with "1.prems" False s SendCount have "rc = MEMCACHED_SUCCESS" "st' = st" "w' = w1"
          by (auto simp: vdo_udp_loop.simps)
        with tr SendCount False show ?thesis
          by (intro exI [of _ "[r]"]) auto
      next
        case n0: False
        with "1.prems" False s SendCount
        have rec: "vdo_udp_loop (retry - 1) iov st w1 = Inr (rc, st', w')"
          by (auto simp: vdo_udp_loop.simps)
        from "1.IH" [OF False s refl SendCount n0 rec]
        obtain used where u: "sendmsg_results w1 = used @ sendmsg_results w'"
          "calls w' = calls w1 @ replicate (length used) (Call_sendmsg (fd st) iov)"
          "length used \<le> retry - 1 - 1"
          "\<forall>r \<in> set (butlast used). r = SendCount 0"
          "used = [] \<or> (\<exists>n. last used = SendCount n) \<longrightarrow> rc = MEMCACHED_SUCCESS \<and> st' = st"
          "used \<noteq> [] \<and> last used = SendError EMSGSIZE \<longrightarrow>
             rc = MEMCACHED_WRITE_FAILURE \<and> st' = record_error (MEMCACHED_WRITE_FAILURE, None) st"
          "\<forall>e. used \<noteq> [] \<and> last used = SendError e \<and> e \<noteq> EMSGSIZE \<longrightarrow>
             rc = MEMCACHED_ERRNO \<and> st' = record_error (MEMCACHED_ERRNO, Some e) st"
          by auto
        have r0: "r = SendCount 0" using SendCount n0 by simp
        show ?thesis
          using u tr r0 False
          by (intro exI [of _ "r # used"]) (auto simp: replicate_append_same)
      qed
    next
      case (SendError e)
      with s have ew: "errno w1 = e" by (auto simp: sys_sendmsg_def split: list.splits)
      with "1.prems" False s SendError
      have "w' = w1" "e = EMSGSIZE \<longrightarrow> rc = MEMCACHED_WRITE_FAILURE \<and> st' = record_error (MEMCACHED_WRITE_FAILURE, None) st"
        "e \<noteq> EMSGSIZE \<longrightarrow> rc = MEMCACHED_ERRNO \<and> st' = record_error (MEMCACHED_ERRNO, Some e) st"
        by (auto simp: vdo_udp_loop.simps memcached_set_error_def memcached_set_errno_def split: if_splits)
      with tr SendError False show ?thesis
        by (intro exI [of _ "[r]"]) auto
    qed
  qed
qed

lemma vdo_udp_loop_all_zero:
  "sendmsg_results w = replicate (retry - 1) (SendCount 0) @ rest \<Longrightarrow>
   \<exists>w'. vdo_udp_loop retry iov st w = Inr (MEMCACHED_SUCCESS, st, w') \<and>
        sendmsg_results w' = rest \<and>
        calls w' = calls w @ replicate (retry - 1) (Call_sendmsg (fd st) iov)"
proof (induction retry arbitrary: w)
  case 0
  then show ?case by (simp add: vdo_udp_loop.simps)
next
  case (Suc k)
  show ?case
  proof (cases k)
    case 0
    with Suc.prems show ?thesis by (simp add: vdo_udp_loop.simps)
  next
    case (Suc j)
    with Suc.prems have sw: "sendmsg_results w = SendCount 0 # replicate j (SendCount 0) @ rest"
      by simp
    define w1 where "w1 = w\<lparr>errno := errno w, calls := calls w @ [Call_sendmsg (fd st) iov],
                            sendmsg_results := replicate j (SendCount 0) @ rest\<rparr>"
    have s: "sys_sendmsg (fd st) iov w = Inr (SendCount 0, w1)"
      using sw by (simp add: sys_sendmsg_def w1_def)
    have "sendmsg_results w1 = replicate (k - 1) (SendCount 0) @ rest"
      using Suc by (simp add: w1_def)
    from Suc.IH [OF this] obtain w' where
      r: "vdo_udp_loop k iov st w1 = Inr (MEMCACHED_SUCCESS, st, w')"
         "sendmsg_results w' = rest"
         "calls w' = calls w1 @ replicate (k - 1) (Call_sendmsg (fd st) iov)"
      by blast
    have "vdo_udp_loop (Suc k) iov st w = vdo_udp_loop k iov st w1"
      using Suc s by (subst vdo_udp_loop.simps) simp
    with r Suc show ?thesis
      by (auto simp: w1_def)
  qed
qed

lemma increment_udp_message_id_keeps:
  "error_messages (increment_udp_message_id st) = error_messages st"
  "root (increment_udp_message_id st) = root st"
  "fd (increment_udp_message_id st) = fd st"
  by (simp_all add: increment_udp_message_id_def Let_def)



lemma vdo_udp_at_most_four_attempts:
  assumes "vdo_udp cfg st vector count w = Inr (rc, vector', st', w')"
  shows "length (calls w') \<le> length (calls w) + 4"
proof (cases vector)
  case Nil
  with assms show ?thesis by (simp add: vdo_udp_def)
next
  case (Cons v0 vs)
  show ?thesis
  proof (cases "iov_buffer v0 \<noteq> None \<or> iov_length v0 \<noteq> 0")
    case True
    with assms Cons have "w' = w"
      by (auto simp: vdo_udp_def memcached_set_error_memc_def split: option.splits)
    then show ?thesis by simp
  next
    case False
    with assms Cons obtain iov st1 where "vdo_udp_loop 5 iov st1 w = Inr (rc, st', w')"
      by (auto simp: vdo_udp_def Let_def split: if_splits sum.splits)
    from vdo_udp_loop_trace [OF this] show ?thesis by auto
  qed
qed

text \<open>
  C5. A well-formed call (empty header slot, \<open>count\<close> parts present) whose \<^verbatim>\<open>sendmsg\<close>
  calls all report 0 until the loop gives up (the four calls it makes) returns success;
  no error is recorded on the connection or on its root, and no further result is
  consumed.
\<close>

theorem vdo_udp_exhausted_is_success:
  assumes "vector = v0 # vs" and "iov_buffer v0 = None" and "iov_length v0 = 0"
    and "count \<le> length vector"
    and "sendmsg_results w = replicate 4 (SendCount 0) @ rest"
  shows "\<exists>vector' st' w'.
           vdo_udp cfg st vector count w = Inr (MEMCACHED_SUCCESS, vector', st', w') \<and>
           error_messages st' = error_messages st \<and> root st' = root st \<and>
           sendmsg_results w' = rest \<and> length (calls w') = length (calls w) + 4"
proof -
  define st1 where "st1 = increment_udp_message_id st"
  define iov where "iov = map iov_bytes (take count
      (\<lparr>iov_buffer = Some (write_buffer st1),
        iov_length = UDP_DATAGRAM_HEADER_LENGTH cfg\<rparr> # vs))"
  have "sendmsg_results w = replicate (5 - 1) (SendCount 0) @ rest"
    using assms(5) by simp
  from vdo_udp_loop_all_zero [OF this, of iov st1] obtain w' where
    l: "vdo_udp_loop 5 iov st1 w = Inr (MEMCACHED_SUCCESS, st1, w')"
       "sendmsg_results w' = rest"
       "calls w' = calls w @ replicate (5 - 1) (Call_sendmsg (fd st1) iov)"
    by blast
  have "vdo_udp cfg st vector count w =
          Inr (MEMCACHED_SUCCESS,
               \<lparr>iov_buffer = Some (write_buffer st1),
                iov_length = UDP_DATAGRAM_HEADER_LENGTH cfg\<rparr> # vs, st1, w')"
    using assms(1-4) l(1) by (simp add: vdo_udp_def Let_def st1_def iov_def)
  with l show ?thesis
    by (simp add: st1_def increment_udp_message_id_keeps)
qed

text \<open>The theorem at a datagram whose four \<^verbatim>\<open>sendmsg\<close> calls all report 0.\<close>

theorem vdo_udp_exhausted_is_success_witness:
  "\<exists>vector' st' w'.
     vdo_udp example_config example_udp_instance example_vector 2
       (example_world\<lparr>sendmsg_results := [SendCount 0, SendCount 0, SendCount 0, SendCount 0, SendCount 9]\<rparr>)
       = Inr (MEMCACHED_SUCCESS, vector', st', w') \<and>
     error_messages st' = [] \<and> sendmsg_results w' = [SendCount 9] \<and> length (calls w') = 4"
proof -
  define w0 where
    "w0 = example_world\<lparr>sendmsg_results :=
                           [SendCount 0, SendCount 0, SendCount 0, SendCount 0, SendCount 9]\<rparr>"
  have "\<exists>vector' st' w'.
          vdo_udp example_config example_udp_instance example_vector 2 w0
            = Inr (MEMCACHED_SUCCESS, vector', st', w') \<and>
          error_messages st' = error_messages example_udp_instance \<and>
          root st' = root example_udp_instance \<and>
          sendmsg_results w' = [SendCount 9] \<and> length (calls w') = length (calls w0) + 4"
    by (rule vdo_udp_exhausted_is_success
              [where ?v0.0 = "\<lparr>iov_buffer = None, iov_length = 0\<rparr>"
                 and vs = "[\<lparr>iov_buffer = Some [103, 101, 116], iov_length = 3\<rparr>]"])
       (simp_all add: example_vector_def w0_def numeral_eq_Suc)
  then obtain vector' st' w' where
    "vdo_udp example_config example_udp_instance example_vector 2 w0
       = Inr (MEMCACHED_SUCCESS, vector', st', w')"
    "error_messages st' = error_messages example_udp_instance"
    "sendmsg_results w' = [SendCount 9]" "length (calls w') = length (calls w0) + 4"
    by blast
  then show ?thesis
    unfolding w0_def
    by (intro exI [of _ vector'] exI [of _ st'] exI [of _ w'])
       (simp add: example_udp_instance_def example_instance_def example_world_def)
qed

subsection \<open>The readable-connection selector\<close>

lemma collect_pollfds_first_buffered:
  assumes "\<forall>s \<in> set pre. read_buffer_length s = 0"
    and "read_buffer_length s > 0"
    and "length fds + length (filter (\<lambda>s. cursor_active s > 0) pre) < MAX_SERVERS_TO_POLL"
  shows "collect_pollfds (pre @ s # post) x fds = Inl (x + length pre)"
  using assms
proof (induction pre arbitrary: x fds)
  case Nil
  then show ?case by simp
next
  case (Cons a pre)
  then show ?case by auto
qed

lemma collect_pollfds_pending:
  assumes "read_buffer_length p = 0" "cursor_active p > 0" "length fds + n \<le> MAX_SERVERS_TO_POLL"
  shows "collect_pollfds (replicate n p @ rest) x fds =
         collect_pollfds rest (x + n) (fds @ replicate n (fd p))"
  using assms
proof (induction n arbitrary: x fds)
  case 0
  then show ?case by simp
next
  case (Suc n)
  have "length fds < MAX_SERVERS_TO_POLL" using Suc.prems by simp
  moreover have "length (fds @ [fd p]) + n \<le> MAX_SERVERS_TO_POLL" using Suc.prems by simp
  ultimately show ?case
    using Suc.IH [of "fds @ [fd p]" "Suc x"] Suc.prems
    by (simp add: replicate_app_Cons_same)
qed

text \<open>
  C7, as amended. When the first connection with unread buffered bytes has index \<open>i\<close>
  and fewer than \<^verbatim>\<open>MAX_SERVERS_TO_POLL\<close> (100) connections before it have a non-zero
  pending-response count, the selector returns that connection and leaves the world as
  it is: no system call is made.
\<close>

theorem readable_server_prefers_buffered:
  assumes "i < length servers"
    and "read_buffer_length (servers ! i) > 0"
    and "\<forall>j<i. read_buffer_length (servers ! j) = 0"
    and "length (filter (\<lambda>s. cursor_active s > 0) (take i servers)) < MAX_SERVERS_TO_POLL"
  shows "memcached_io_get_readable_server memc servers w = Inr (Some i, memc, w)"
proof -
  have split: "servers = take i servers @ servers ! i # drop (Suc i) servers"
    using assms(1) by (simp add: id_take_nth_drop)
  have pre: "\<forall>s \<in> set (take i servers). read_buffer_length s = 0"
    using assms(1,3) by (auto simp: in_set_conv_nth)
  have "collect_pollfds (take i servers @ servers ! i # drop (Suc i) servers) 0 [] =
          Inl (0 + length (take i servers))"
    by (rule collect_pollfds_first_buffered [OF pre assms(2)]) (use assms(4) in simp)
  with split assms(1) have "collect_pollfds servers 0 [] = Inl i"
    by simp
  then show ?thesis
    by (simp add: memcached_io_get_readable_server_def)
qed

text \<open>
  The theorem at two connections: the first is owed two responses, the second holds
  three unread bytes.
\<close>

theorem readable_server_prefers_buffered_witness:
  "memcached_io_get_readable_server example_root
     [example_instance\<lparr>cursor_active := 2\<rparr>, example_instance\<lparr>read_buffer_length := 3\<rparr>]
     example_world = Inr (Some 1, example_root, example_world)"
  by (rule readable_server_prefers_buffered)
     (simp_all add: MAX_SERVERS_TO_POLL_def less_Suc_eq example_instance_def)

text \<open>
  C7 as stated fails: behind one hundred connections that are owed a response, a
  connection with unread buffered bytes is not looked at. The first pass stops when its
  table of descriptors is full, the selector polls the hundred descriptors, and on a
  timeout it returns no connection.
\<close>

theorem readable_server_polls_past_hundred_pending:
  "memcached_io_get_readable_server example_root
     (replicate 100 (example_instance\<lparr>cursor_active := 1\<rparr>) @ [example_instance\<lparr>read_buffer_length := 3\<rparr>])
     (example_world\<lparr>poll_results := [PollRevents []]\<rparr>)
   = Inr (None, example_root,
          example_world\<lparr>calls := [Call_poll (replicate 100 3) 5000], poll_results := []\<rparr>)"
proof -
  have "collect_pollfds (replicate 100 (example_instance\<lparr>cursor_active := 1\<rparr>)
            @ [example_instance\<lparr>read_buffer_length := 3\<rparr>]) 0 []
        = collect_pollfds [example_instance\<lparr>read_buffer_length := 3\<rparr>] (0 + 100)
            ([] @ replicate 100 (fd (example_instance\<lparr>cursor_active := 1\<rparr>)))"
    by (rule collect_pollfds_pending) (simp_all add: example_instance_def MAX_SERVERS_TO_POLL_def)
  then have c: "collect_pollfds (replicate 100 (example_instance\<lparr>cursor_active := 1\<rparr>)
            @ [example_instance\<lparr>read_buffer_length := 3\<rparr>]) 0 [] = Inr (replicate 100 3)"
    by (simp add: example_instance_def MAX_SERVERS_TO_POLL_def)
  show ?thesis
    by (simp add: memcached_io_get_readable_server_def c sys_poll_def example_world_def
          example_root_def revents_of_def Let_def o_def)
qed

subsection \<open>The poll gate\<close>

declare io_wait_loop.simps [simp del]

lemma io_wait_loop_retries_once:
  assumes "root st = Some r" and "k - 1 \<noteq> 0"
    and "poll_results w = p # ps" and "transient_poll_result events p"
    and "getsockopt_results w = (if asks_socket_error p then SoError None # gs else gs)"
  shows "\<exists>w1. io_wait_loop cfg k events st w = io_wait_loop cfg (k - 1) events st w1 \<and>
              poll_results w1 = ps \<and> getsockopt_results w1 = gs \<and>
              shutdown_results w1 = shutdown_results w \<and>
              polls_made w1 = Suc (polls_made w)"
proof (cases p)
  case (PollError e)
  with assms show ?thesis
    by (subst io_wait_loop.simps)
       (auto simp: transient_poll_result_def asks_socket_error_def sys_poll_def Let_def)
next
  case (PollRevents revs)
  with assms(4) obtain f fs where revs: "revs = f # fs"
    and f: "POLLERR f" "\<not> POLLHUP f" "\<not> (POLLIN f \<and> POLLIN events)" "\<not> (POLLOUT f \<and> POLLOUT events)"
    by (auto simp: transient_poll_result_def split: list.splits)
  have ne: "f\<lparr>POLLIN := POLLIN f \<and> POLLIN events, POLLOUT := POLLOUT f \<and> POLLOUT events\<rparr> \<noteq> no_events"
    using f(1) by (auto simp: no_events_def dest: arg_cong [where f = POLLERR])
  show ?thesis
    using assms PollRevents revs f ne
    by (subst io_wait_loop.simps)
       (auto simp: asks_socket_error_def sys_poll_def Let_def revents_of_def sys_getsockopt_def)
qed

lemma io_wait_loop_retries:
  assumes "root st = Some r"
    and "length ps < k"
    and "\<forall>p \<in> set ps. transient_poll_result events p"
    and "poll_results w = ps @ rest"
    and "getsockopt_results w = replicate (length (filter asks_socket_error ps)) (SoError None) @ gs"
  shows "\<exists>w1. io_wait_loop cfg k events st w = io_wait_loop cfg (k - length ps) events st w1 \<and>
              poll_results w1 = rest \<and> getsockopt_results w1 = gs \<and>
              shutdown_results w1 = shutdown_results w \<and>
              polls_made w1 = polls_made w + length ps"
  using assms(2-)
proof (induction ps arbitrary: k w)
  case Nil
  then show ?case by (intro exI [of _ w]) simp
next
  case (Cons p ps)
  have k: "k - 1 \<noteq> 0" using Cons.prems(1) by simp
  have g: "getsockopt_results w =
             (if asks_socket_error p
              then SoError None # replicate (length (filter asks_socket_error ps)) (SoError None) @ gs
              else replicate (length (filter asks_socket_error ps)) (SoError None) @ gs)"
    using Cons.prems(4) by simp
  have "\<exists>w1. io_wait_loop cfg k events st w = io_wait_loop cfg (k - 1) events st w1 \<and>
              poll_results w1 = ps @ rest \<and>
              getsockopt_results w1 =
                replicate (length (filter asks_socket_error ps)) (SoError None) @ gs \<and>
              shutdown_results w1 = shutdown_results w \<and>
              polls_made w1 = Suc (polls_made w)"
  proof (rule io_wait_loop_retries_once [OF assms(1) k _ _ g])
    show "poll_results w = p # ps @ rest" using Cons.prems(3) by simp
    show "transient_poll_result events p" using Cons.prems(2) by simp
  qed
  then obtain w1 where w1: "io_wait_loop cfg k events st w = io_wait_loop cfg (k - 1) events st w1"
    "poll_results w1 = ps @ rest"
    "getsockopt_results w1 = replicate (length (filter asks_socket_error ps)) (SoError None) @ gs"
    "shutdown_results w1 = shutdown_results w"
    "polls_made w1 = Suc (polls_made w)"
    by blast
  have "length ps < k - 1" using Cons.prems(1) by simp
  from Cons.IH [OF this _ w1(2) w1(3)] Cons.prems(2)
  obtain w2 where "io_wait_loop cfg (k - 1) events st w1 = io_wait_loop cfg (k - 1 - length ps) events st w2"
    "poll_results w2 = rest" "getsockopt_results w2 = gs" "shutdown_results w2 = shutdown_results w1"
    "polls_made w2 = polls_made w1 + length ps"
    by auto
  with w1 show ?case
    by (intro exI [of _ w2]) simp
qed

lemma io_wait_after_loop_closes:
  assumes "fd st = INVALID_SOCKET \<or> shutdown_results w \<noteq> []"
  shows "\<exists>st' w'. io_wait_after_loop cfg st w =
           Inr (if error_messages st = [] then MEMCACHED_CONNECTION_FAILURE
                else fst (hd (error_messages st)), st', w') \<and>
           state st' = MEMCACHED_SERVER_STATE_NEW \<and> fd st' = INVALID_SOCKET \<and>
           poll_results w' = poll_results w \<and> polls_made w' = polls_made w"
  using assms
  by (cases "shutdown_results w"; cases "error_messages st")
     (auto simp: io_wait_after_loop_def memcached_quit_server_def close_socket_def
        sys_shutdown_def reset_socket_def memcached_has_error_def
        memcached_instance_error_return_def memcached_set_error_def record_error_def Let_def
        split: option.splits)

lemma io_wait_loop_ready:
  assumes "root st = Some r" and "k - 1 \<noteq> 0"
    and "poll_results w = PollRevents (f # fs) # rest"
    and "POLLIN f \<and> POLLIN events \<or> POLLOUT f \<and> POLLOUT events"
  shows "\<exists>w'. io_wait_loop cfg k events st w = Inr (MEMCACHED_SUCCESS, st, w') \<and>
              poll_results w' = rest \<and> polls_made w' = Suc (polls_made w)"
proof -
  have ne: "f\<lparr>POLLIN := POLLIN f \<and> POLLIN events, POLLOUT := POLLOUT f \<and> POLLOUT events\<rparr> \<noteq> no_events"
    using assms(4)
    by (auto simp: no_events_def dest: arg_cong [where f = POLLIN] arg_cong [where f = POLLOUT])
  show ?thesis
    using assms ne
    by (subst io_wait_loop.simps) (auto simp: sys_poll_def Let_def revents_of_def)
qed

text \<open>
  C3, as amended: the bound is four attempts, not five. Take a connection and an
  interest (for writability the preliminary purge must succeed; \<open>st1\<close> is the connection
  it leaves), a non-zero poll timeout, and a wait whose first results \<open>ps\<close> are all
  transient, every socket error asked for being zero. Then the gate retries: after up to
  three transient results, a readiness that was asked for gives success, one \<^verbatim>\<open>poll\<close>
  call having been made per result. After four transient results the gate gives up
  without a fifth call: it closes the connection (state NEW, descriptor released) and
  returns the last error recorded on the connection, or \<^verbatim>\<open>MEMCACHED_CONNECTION_FAILURE\<close>
  if none was recorded.
\<close>

theorem io_wait_retries_four_times:
  assumes purge: "POLLOUT events \<longrightarrow> purge_results w = (True, purged) # prs"
    and st1: "st1 = (if POLLOUT events then (case purged of None \<Rightarrow> st | Some s \<Rightarrow> s) else st)"
    and root: "root st1 = Some r" and timeout: "poll_timeout r \<noteq> 0"
    and transient: "\<forall>p \<in> set ps. transient_poll_result events p"
    and polls: "poll_results w = ps @ rest"
    and sockopts: "getsockopt_results w =
                     replicate (length (filter asks_socket_error ps)) (SoError None) @ gs"
  shows "(length ps \<le> 3 \<and> (\<exists>f fs rest'. rest = PollRevents (f # fs) # rest' \<and>
                              (POLLIN f \<and> POLLIN events \<or> POLLOUT f \<and> POLLOUT events)) \<longrightarrow>
           (\<exists>st' w'. io_wait cfg st events w = Inr (MEMCACHED_SUCCESS, st', w') \<and>
                      polls_made w' = polls_made w + length ps + 1)) \<and>
         (length ps = 4 \<and> (fd st1 = INVALID_SOCKET \<or> shutdown_results w \<noteq> []) \<longrightarrow>
           (\<exists>st' w'. io_wait cfg st events w =
                        Inr (if error_messages st1 = [] then MEMCACHED_CONNECTION_FAILURE
                             else fst (hd (error_messages st1)), st', w') \<and>
                      state st' = MEMCACHED_SERVER_STATE_NEW \<and> fd st' = INVALID_SOCKET \<and>
                      poll_results w' = rest \<and> polls_made w' = polls_made w + 4))"
proof -
  define st2 where "st2 = (if POLLOUT events
                           then st1\<lparr>io_wait_count_write := io_wait_count_write st1 + 1\<rparr>
                           else st1\<lparr>io_wait_count_read := io_wait_count_read st1 + 1\<rparr>)"
  define w1 where "w1 = (if POLLOUT events then w\<lparr>purge_results := prs\<rparr> else w)"
  have enter: "io_wait cfg st events w = io_wait_loop cfg 5 events st2 w1"
    using purge st1 root timeout
    by (auto simp: io_wait_def memcached_purge_def st2_def w1_def Let_def split: option.splits)
  have r2: "root st2 = Some r" using root by (simp add: st2_def)
  have p1: "poll_results w1 = ps @ rest" using polls by (simp add: w1_def)
  have g1: "getsockopt_results w1 =
              replicate (length (filter asks_socket_error ps)) (SoError None) @ gs"
    using sockopts by (simp add: w1_def)
  have same: "shutdown_results w1 = shutdown_results w" "polls_made w1 = polls_made w"
    by (simp_all add: w1_def)
  have e2: "error_messages st2 = error_messages st1" "fd st2 = fd st1"
    by (simp_all add: st2_def)
  show ?thesis
  proof (intro conjI impI)
    assume a: "length ps \<le> 3 \<and> (\<exists>f fs rest'. rest = PollRevents (f # fs) # rest' \<and>
                              (POLLIN f \<and> POLLIN events \<or> POLLOUT f \<and> POLLOUT events))"
    then obtain f fs rest' where rest: "rest = PollRevents (f # fs) # rest'"
      and f: "POLLIN f \<and> POLLIN events \<or> POLLOUT f \<and> POLLOUT events"
      by blast
    have "length ps < 5" using a by simp
    from io_wait_loop_retries [OF r2 this transient p1 g1, of cfg]
    obtain w2 where w2: "io_wait_loop cfg 5 events st2 w1 = io_wait_loop cfg (5 - length ps) events st2 w2"
      "poll_results w2 = rest" "polls_made w2 = polls_made w1 + length ps"
      by blast
    have "5 - length ps - 1 \<noteq> 0" using a by simp
    from io_wait_loop_ready [OF r2 this _ f, of w2 fs rest' cfg] w2(2) rest
    obtain w' where "io_wait_loop cfg (5 - length ps) events st2 w2 = Inr (MEMCACHED_SUCCESS, st2, w')"
      "polls_made w' = Suc (polls_made w2)"
      by auto
    with enter w2 same show "\<exists>st' w'. io_wait cfg st events w = Inr (MEMCACHED_SUCCESS, st', w') \<and>
                      polls_made w' = polls_made w + length ps + 1"
      by simp
  next
    assume a: "length ps = 4 \<and> (fd st1 = INVALID_SOCKET \<or> shutdown_results w \<noteq> [])"
    then have "length ps < 5" by simp
    from io_wait_loop_retries [OF r2 this transient p1 g1, of cfg]
    obtain w2 where w2: "io_wait_loop cfg 5 events st2 w1 = io_wait_loop cfg (5 - length ps) events st2 w2"
      "poll_results w2 = rest" "shutdown_results w2 = shutdown_results w1"
      "polls_made w2 = polls_made w1 + length ps"
      by blast
    have out: "io_wait_loop cfg (5 - length ps) events st2 w2 = io_wait_after_loop cfg st2 w2"
      using a by (subst io_wait_loop.simps) simp
    have "fd st2 = INVALID_SOCKET \<or> shutdown_results w2 \<noteq> []"
      using a e2 w2(3) same by simp
    from io_wait_after_loop_closes [OF this, of cfg] obtain st' w' where
      "io_wait_after_loop cfg st2 w2 =
           Inr (if error_messages st2 = [] then MEMCACHED_CONNECTION_FAILURE
                else fst (hd (error_messages st2)), st', w')"
      "state st' = MEMCACHED_SERVER_STATE_NEW" "fd st' = INVALID_SOCKET"
      "poll_results w' = poll_results w2" "polls_made w' = polls_made w2"
      by blast
    with enter w2 out same e2 a
    show "\<exists>st' w'. io_wait cfg st events w =
                        Inr (if error_messages st1 = [] then MEMCACHED_CONNECTION_FAILURE
                             else fst (hd (error_messages st1)), st', w') \<and>
                      state st' = MEMCACHED_SERVER_STATE_NEW \<and> fd st' = INVALID_SOCKET \<and>
                      poll_results w' = rest \<and> polls_made w' = polls_made w + 4"
      by simp
  qed
qed

text \<open>
  The theorem at a wait for readability that is interrupted, then spurious, then ready;
  and at one that is transient four times in a row.
\<close>

theorem io_wait_retries_four_times_witness:
  "(\<exists>st' w'. io_wait example_config example_instance events_POLLIN
       (example_world\<lparr>poll_results := [PollError EINTR, PollRevents [example_POLLERR],
                                          PollRevents [events_POLLIN]],
                       getsockopt_results := [SoError None]\<rparr>)
       = Inr (MEMCACHED_SUCCESS, st', w') \<and> polls_made w' = 3) \<and>
   (\<exists>st' w'. io_wait example_config example_instance events_POLLIN
       (example_world\<lparr>poll_results := [PollError EINTR, PollRevents [example_POLLERR],
                                          PollError ERESTART, PollError EINTR,
                                          PollRevents [events_POLLIN]],
                       getsockopt_results := [SoError None],
                       shutdown_results := [None]\<rparr>)
       = Inr (MEMCACHED_CONNECTION_FAILURE, st', w') \<and>
     state st' = MEMCACHED_SERVER_STATE_NEW \<and> fd st' = INVALID_SOCKET \<and>
     poll_results w' = [PollRevents [events_POLLIN]] \<and> polls_made w' = 4)"
proof -
  have t: "\<forall>p \<in> set [PollError EINTR, PollRevents [example_POLLERR], PollError ERESTART, PollError EINTR].
             transient_poll_result events_POLLIN p"
    by (simp add: transient_poll_result_def example_POLLERR_def events_POLLIN_def no_events_def)
  have t2: "\<forall>p \<in> set [PollError EINTR, PollRevents [example_POLLERR]].
             transient_poll_result events_POLLIN p"
    using t by simp
  have "\<exists>st' w'. io_wait example_config example_instance events_POLLIN
       (example_world\<lparr>poll_results := [PollError EINTR, PollRevents [example_POLLERR],
                                          PollRevents [events_POLLIN]],
                       getsockopt_results := [SoError None]\<rparr>)
       = Inr (MEMCACHED_SUCCESS, st', w') \<and>
       polls_made w' = polls_made (example_world\<lparr>poll_results := [PollError EINTR, PollRevents [example_POLLERR],
                                          PollRevents [events_POLLIN]],
                       getsockopt_results := [SoError None]\<rparr>)
          + length [PollError EINTR, PollRevents [example_POLLERR]] + 1"
    by (rule io_wait_retries_four_times
              [where events = events_POLLIN and st = example_instance
                 and ?st1.0 = example_instance and r = example_root and cfg = example_config
                 and gs = "[]" and ps = "[PollError EINTR, PollRevents [example_POLLERR]]"
                 and rest = "[PollRevents [events_POLLIN]]",
               THEN conjunct1, THEN mp, OF _ _ _ _ t2])
       (simp_all add: events_POLLIN_def no_events_def example_instance_def example_root_def
          asks_socket_error_def)
  moreover
  have "\<exists>st' w'. io_wait example_config example_instance events_POLLIN
       (example_world\<lparr>poll_results := [PollError EINTR, PollRevents [example_POLLERR],
                                          PollError ERESTART, PollError EINTR,
                                          PollRevents [events_POLLIN]],
                       getsockopt_results := [SoError None],
                       shutdown_results := [None]\<rparr>)
       = Inr (if error_messages example_instance = [] then MEMCACHED_CONNECTION_FAILURE
              else fst (hd (error_messages example_instance)), st', w') \<and>
     state st' = MEMCACHED_SERVER_STATE_NEW \<and> fd st' = INVALID_SOCKET \<and>
     poll_results w' = [PollRevents [events_POLLIN]] \<and>
     polls_made w' = polls_made (example_world\<lparr>poll_results := [PollError EINTR, PollRevents [example_POLLERR],
                                          PollError ERESTART, PollError EINTR,
                                          PollRevents [events_POLLIN]],
                       getsockopt_results := [SoError None],
                       shutdown_results := [None]\<rparr>) + 4"
    by (rule io_wait_retries_four_times
              [where events = events_POLLIN and st = example_instance
                 and ?st1.0 = example_instance and r = example_root and cfg = example_config
                 and gs = "[]"
                 and ps = "[PollError EINTR, PollRevents [example_POLLERR], PollError ERESTART,
                            PollError EINTR]"
                 and rest = "[PollRevents [events_POLLIN]]",
               THEN conjunct2, THEN mp, OF _ _ _ _ t])
       (simp_all add: events_POLLIN_def no_events_def example_instance_def example_root_def
          asks_socket_error_def)
  ultimately show ?thesis
    by (simp add: example_instance_def example_world_def numeral_3_eq_3)
qed

text \<open>
  C3 as stated fails: after four interrupted waits the gate does not make a fifth
  attempt. The fifth scripted result, which says the descriptor is readable, is left
  unused; the connection is closed and \<^verbatim>\<open>MEMCACHED_CONNECTION_FAILURE\<close> returned.
\<close>

theorem io_wait_makes_no_fifth_attempt:
  "map_sum id (\<lambda>(rc, st', w'). (rc, state st', poll_results w', polls_made w'))
     (io_wait example_config example_instance events_POLLIN
        (example_world\<lparr>poll_results := [PollError EINTR, PollError EINTR, PollError EINTR,
                                           PollError EINTR, PollRevents [events_POLLIN]],
                        shutdown_results := [None]\<rparr>))
   = Inr (MEMCACHED_CONNECTION_FAILURE, MEMCACHED_SERVER_STATE_NEW,
          [PollRevents [events_POLLIN]], 4)"
  by (simp add: io_wait_def io_wait_loop.simps io_wait_after_loop_def sys_poll_def
        memcached_quit_server_def close_socket_def sys_shutdown_def reset_socket_def
        memcached_has_error_def memcached_set_error_def record_error_def
        example_instance_def example_world_def example_root_def events_POLLIN_def
        no_events_def INVALID_SOCKET_def Let_def)

subsection \<open>Flush\<close>

declare io_flush_loop.simps [simp del]

text \<open>
  C9, as amended. \<^verbatim>\<open>io_flush\<close> starts with \<^verbatim>\<open>memcached_purge\<close>. When the purge succeeds
  and leaves a connection \<open>st1\<close> whose write buffer is empty, the flush returns true with
  the error set to success, whatever the fuel and the flag; the connection is the one
  the purge left, with its write-buffer offset still zero, and the world has only lost
  the purge result: no system call is logged and no \<^verbatim>\<open>send\<close> result is consumed.
\<close>

theorem io_flush_empty_is_noop:
  assumes "purge_results w = (True, purged) # prs"
    and "st1 = (case purged of None \<Rightarrow> st | Some s \<Rightarrow> s)"
    and "write_buffer_offset st1 = 0"
  shows "io_flush cfg fuel st with_flush w =
           Inr (True, Some MEMCACHED_SUCCESS, st1, w\<lparr>purge_results := prs\<rparr>)"
proof -
  have "st1\<lparr>write_buffer_offset := 0\<rparr> = st1"
    using assms(3) by simp
  then show ?thesis
    using assms
    by (simp add: io_flush_def memcached_purge_def io_flush_loop.simps)
qed

text \<open>
  The theorem at the example connection, whose write buffer is empty, with a purge that
  has nothing to do: the scripted \<^verbatim>\<open>send\<close> result is still there afterwards.
\<close>

theorem io_flush_empty_is_noop_witness:
  "io_flush example_config 0 example_instance True
     (example_world\<lparr>purge_results := [(True, None)], send_results := [SendCount 5]\<rparr>)
   = Inr (True, Some MEMCACHED_SUCCESS, example_instance,
          example_world\<lparr>send_results := [SendCount 5]\<rparr>)"
proof -
  have "io_flush example_config 0 example_instance True
     (example_world\<lparr>purge_results := [(True, None)], send_results := [SendCount 5]\<rparr>)
   = Inr (True, Some MEMCACHED_SUCCESS, example_instance,
          example_world\<lparr>purge_results := [(True, None)], send_results := [SendCount 5],
                         purge_results := []\<rparr>)"
    by (rule io_flush_empty_is_noop [where purged = None]) (simp_all add: example_instance_def)
  then show ?thesis
    by (simp add: example_world_def)
qed

text \<open>
  C9 as stated fails: on a connection with an empty write buffer whose purge fails,
  \<^verbatim>\<open>io_flush\<close> returns false, and it returns before it assigns the error.
\<close>

theorem io_flush_fails_when_purge_fails:
  "io_flush example_config 1 example_instance True
     (example_world\<lparr>purge_results := [(False, None)]\<rparr>)
   = Inr (False, None, example_instance, example_world)"
  by (simp add: io_flush_def memcached_purge_def example_world_def)

subsection \<open>The request sender\<close>

declare io_write_loop.simps [simp del]

text \<open>
  C10, as amended. Take a call of \<^verbatim>\<open>memcached_vdo\<close> on the TCP path (the connect step
  succeeds, the root is not UDP) in which \<^verbatim>\<open>memcached_io_writev\<close> returns false,
  leaving a connection with root \<open>r2\<close>. With assertions enabled the call always ends in a
  failed assertion: the first assertion fails when an error is recorded, and otherwise
  the branch for "no error recorded" is entered and its own assertion, which requires a
  recorded error, fails. So with assertions enabled the else-branch is unreachable. With
  assertions disabled the call returns \<^verbatim>\<open>MEMCACHED_WRITE_FAILURE\<close> (and records it) when
  no error is recorded, and otherwise takes the else-branch and returns the recorded
  error.
\<close>

theorem vdo_failed_write_assertions:
  assumes "(if ENABLE_SOCKET_FUNCTIONS cfg then memcached_connect st w
            else Inr (MEMCACHED_SUCCESS, st, w)) = Inr (rc0, st1, w1)"
    and "\<not> memcached_failed rc0"
    and "root st1 = Some r" and "\<not> memcached_is_udp r"
    and "memcached_io_writev cfg fuel st1 vector count with_flush w1 = Inr (False, st2, w2)"
    and "root st2 = Some r2"
  shows "memcached_vdo cfg fuel st vector count with_flush w =
           (if \<not> NDEBUG cfg then Inl AssertionFailed
            else if memcached_last_error r2 = MEMCACHED_SUCCESS
            then Inr (MEMCACHED_WRITE_FAILURE, vector,
                      record_error (MEMCACHED_WRITE_FAILURE, None) st2, w2)
            else Inr (memcached_last_error r2, vector, st2, w2)) \<and>
         (if \<not> NDEBUG cfg \<and> memcached_last_error r2 \<noteq> MEMCACHED_SUCCESS
          then vdo_after_writev cfg False r2 st2 = Inl AssertionFailed
          else vdo_after_writev cfg False r2 st2 =
                 (if memcached_last_error r2 = MEMCACHED_SUCCESS
                  then vdo_unrecorded_failure cfg r2 st2
                  else Inr (memcached_last_error r2, st2))) \<and>
         (if memcached_last_error r2 = MEMCACHED_SUCCESS \<and> \<not> NDEBUG cfg
          then vdo_unrecorded_failure cfg r2 st2 = Inl AssertionFailed
          else True)"
  using assms
  by (auto simp: memcached_vdo_def vdo_after_writev_def vdo_unrecorded_failure_def
        memcached_set_error_def split: if_splits)

text \<open>The definitions that evaluate a concrete call of \<^verbatim>\<open>memcached_vdo\<close>.\<close>

lemmas vdo_eval_defs =
  io_flush_def memcached_purge_def io_flush_loop.simps flush_transmit_def
  sys_send_def example_config_def example_instance_def example_world_def example_root_def Let_def
  memcached_quit_server_def close_socket_def sys_shutdown_def reset_socket_def
  memcached_set_errno_def memcached_set_error_def record_error_def INVALID_SOCKET_def
  memcached_vdo_def memcached_connect_def memcached_failed_def memcached_is_udp_def
  memcached_io_writev_def io_write_def io_write_loop.simps io_write_chunk_def size_sub_def
  SIZE_MODULUS_def store_bytes_def memcached_io_write_def vdo_after_writev_def
  vdo_unrecorded_failure_def memcached_last_error_def memcached_is_replying_def
  memcached_server_response_increment_def

text \<open>
  The theorem at a build without assertions, for a request whose final flush fails
  because \<^verbatim>\<open>send\<close> fails with \<^verbatim>\<open>EPIPE\<close>: the flush records the errno-based failure,
  and \<^verbatim>\<open>memcached_vdo\<close> returns it.
\<close>

theorem vdo_failed_write_assertions_witness:
  "\<exists>st2 w2.
     memcached_vdo (example_config\<lparr>NDEBUG := True\<rparr>) 2 example_instance
       [\<lparr>iov_buffer = Some [103, 101, 116], iov_length = 3\<rparr>] 1 True
       (example_world\<lparr>connect_results := [(MEMCACHED_SUCCESS, None)],
                       purge_results := [(True, None)],
                       send_results := [SendError EPIPE],
                       shutdown_results := [None]\<rparr>)
     = Inr (MEMCACHED_ERRNO, [\<lparr>iov_buffer = Some [103, 101, 116], iov_length = 3\<rparr>], st2, w2)"
proof -
  define cfg where "cfg = example_config\<lparr>NDEBUG := True\<rparr>"
  define w where "w = example_world\<lparr>connect_results := [(MEMCACHED_SUCCESS, None)],
                       purge_results := [(True, None)],
                       send_results := [SendError EPIPE],
                       shutdown_results := [None]\<rparr>"
  define vector where "vector = [\<lparr>iov_buffer = Some [103, 101, 116], iov_length = 3\<rparr>]"
  have c: "(if ENABLE_SOCKET_FUNCTIONS cfg then memcached_connect example_instance w
            else Inr (MEMCACHED_SUCCESS, example_instance, w))
           = Inr (MEMCACHED_SUCCESS, example_instance, w\<lparr>connect_results := []\<rparr>)"
    by (simp add: cfg_def w_def example_config_def memcached_connect_def)
  have "\<exists>st2 w2 r2. memcached_io_writev cfg 2 example_instance vector 1 True
                      (w\<lparr>connect_results := []\<rparr>) = Inr (False, st2, w2) \<and>
                    root st2 = Some r2 \<and> memcached_last_error r2 = MEMCACHED_ERRNO"
    by (simp add: cfg_def w_def vector_def vdo_eval_defs)
  then obtain st2 w2 r2 where
    wv: "memcached_io_writev cfg 2 example_instance vector 1 True
           (w\<lparr>connect_results := []\<rparr>) = Inr (False, st2, w2)"
    and r2: "root st2 = Some r2" and le: "memcached_last_error r2 = MEMCACHED_ERRNO"
    by blast
  have n: "NDEBUG cfg" by (simp add: cfg_def)
  have "memcached_vdo cfg 2 example_instance vector 1 True w =
          Inr (memcached_last_error r2, vector, st2, w2)"
    using vdo_failed_write_assertions [OF c _ _ _ wv r2, of example_root, THEN conjunct1] n le
    by (simp add: memcached_failed_def memcached_is_udp_def example_instance_def example_root_def)
  then show ?thesis
    unfolding cfg_def w_def vector_def le by blast
qed

text \<open>
  C10 as stated fails in its last part: with assertions disabled the else-branch is
  reachable. The same call returns the recorded error \<^verbatim>\<open>MEMCACHED_ERRNO\<close>, not
  \<^verbatim>\<open>MEMCACHED_WRITE_FAILURE\<close>.
\<close>

theorem vdo_propagates_recorded_error_without_assertions:
  "map_sum id fst
     (memcached_vdo (example_config\<lparr>NDEBUG := True\<rparr>) 2 example_instance
        [\<lparr>iov_buffer = Some [103, 101, 116], iov_length = 3\<rparr>] 1 True
        (example_world\<lparr>connect_results := [(MEMCACHED_SUCCESS, None)],
                        purge_results := [(True, None)],
                        send_results := [SendError EPIPE],
                        shutdown_results := [None]\<rparr>))
   = Inr MEMCACHED_ERRNO"
  by (simp add: vdo_eval_defs)

subsection \<open>Refill\<close>

declare io_fill.simps [simp del]


lemma record_error_frame [simp]:
  "io_wait_count_bytes_read (record_error e st) = io_wait_count_bytes_read st"
  by (simp add: record_error_def)















subsection \<open>The scatter-gather writer\<close>








subsection \<open>The line read\<close>

declare readline_copy.simps [simp del]
declare readline_loop.simps [simp del]
declare io_read_loop.simps [simp del]

text \<open>
  Both loops of the line read keep \<open>line_so_far\<close>, and the return code is decided by the
  count alone once the destination is full.
\<close>

lemma readline_copy_keeps_line:
  "readline_copy cfg max_size st out total_nr line_complete = Inr (st', out', total_nr', line_complete')
   \<Longrightarrow> line_so_far max_size out total_nr line_complete
   \<Longrightarrow> line_so_far max_size out' total_nr' line_complete'"
proof (induction cfg max_size st out total_nr line_complete rule: readline_copy.induct)
  case (1 cfg max_size st out total_nr line_complete)
  show ?case
  proof (cases "read_buffer_length st \<noteq> 0 \<and> total_nr < max_size \<and> line_complete = False")
    case False
    with "1.prems" show ?thesis
      by (subst (asm) readline_copy.simps) auto
  next
    case True
    define b where "b = read_buffer st ! read_ptr st"
    from "1.prems"(1) True
    have inb: "read_ptr st < MEMCACHED_MAX_BUFFER cfg \<and> read_ptr st < length (read_buffer st)"
      by (subst (asm) readline_copy.simps) (auto split: if_splits)
    with "1.prems"(1) True
    have rec: "readline_copy cfg max_size
                 (st\<lparr>read_buffer_length := read_buffer_length st - 1, read_ptr := read_ptr st + 1\<rparr>)
                 (out @ [b]) (total_nr + 1) (b = NEWLINE)
               = Inr (st', out', total_nr', line_complete')"
      by (subst (asm) readline_copy.simps) (simp add: b_def)
    have "line_so_far max_size (out @ [b]) (total_nr + 1) (b = NEWLINE)"
      using "1.prems"(2) True by (auto simp: line_so_far_def)
    from "1.IH" [OF True inb rec [unfolded b_def] this [unfolded b_def]] show ?thesis .
  qed
qed

lemma readline_loop_keeps_line:
  "readline_loop cfg fuel max_size st out total_nr w = Inr (rc, total_nr', out', st', w')
   \<Longrightarrow> line_so_far max_size out total_nr False \<Longrightarrow> total_nr < max_size
   \<Longrightarrow> \<exists>line_complete.
         line_so_far max_size out' total_nr' line_complete \<and>
         (total_nr' = max_size \<longrightarrow> rc = MEMCACHED_PROTOCOL_ERROR) \<and>
         (rc = MEMCACHED_SUCCESS \<longleftrightarrow> total_nr' < max_size \<and> line_complete)"
proof (induction fuel arbitrary: st out total_nr w)
  case 0
  then show ?case by (simp add: readline_loop.simps)
next
  case (Suc n)
  define phase1 where "phase1 =
    (if read_buffer_length st = 0
            then (case memcached_io_read cfg n st 1 w of
                    Inl e \<Rightarrow> Inl e
                  | Inr (rc, nread, bytes, st1, w1) \<Rightarrow>
                      if memcached_failed rc \<and> rc = MEMCACHED_IN_PROGRESS
                      then (case memcached_quit_server cfg st1 w1 of
                              Inl e \<Rightarrow> Inl e
                            | Inr (st2, w2) \<Rightarrow>
                                (let (rc1, st3) = memcached_set_error st2 rc
                                 in Inr (Some rc1, st3, out, total_nr, False, w2)))
                      else if memcached_failed rc
                      then Inr (Some rc, st1, out, total_nr, False, w1)
                      else (case bytes of
                              [] \<Rightarrow> Inl OutOfBounds
                            | b # _ \<Rightarrow>
                                if total_nr < max_size
                                then Inr (None, st1, out @ [b], total_nr + 1, b = NEWLINE, w1)
                                else Inl OutOfBounds))
            else Inr (None, st, out, total_nr, False, w))"
  have unfold: "readline_loop cfg (Suc n) max_size st out total_nr w =
     (case phase1 of
        Inl e \<Rightarrow> Inl e
      | Inr (Some rc, st1, out1, total_nr1, line_complete1, w1) \<Rightarrow>
          Inr (rc, total_nr1, out1, st1, w1)
      | Inr (None, st1, out1, total_nr1, line_complete1, w1) \<Rightarrow>
          (case readline_copy cfg max_size st1 out1 total_nr1 line_complete1 of
             Inl e \<Rightarrow> Inl e
           | Inr (st2, out2, total_nr2, line_complete2) \<Rightarrow>
               if total_nr2 = max_size then Inr (MEMCACHED_PROTOCOL_ERROR, total_nr2, out2, st2, w1)
               else if line_complete2 then Inr (MEMCACHED_SUCCESS, total_nr2, out2, st2, w1)
               else readline_loop cfg n max_size st2 out2 total_nr2 w1))"
    unfolding phase1_def by (subst readline_loop.simps) (rule refl)
  from Suc.prems(1) unfold obtain ropt st1 out1 tn1 lc1 w1 where
    p1: "phase1 = Inr (ropt, st1, out1, tn1, lc1, w1)"
    by (auto split: sum.splits)
  have p1_facts: "case ropt of
                    Some rc0 \<Rightarrow> rc0 \<noteq> MEMCACHED_SUCCESS \<and> out1 = out \<and> tn1 = total_nr
                  | None \<Rightarrow> line_so_far max_size out1 tn1 lc1"
  proof (cases "read_buffer_length st = 0")
    case False
    with p1 Suc.prems(2) show ?thesis
      by (simp add: phase1_def)
  next
    case True
    with p1 obtain rc0 nread bytes st0 w0 where
      rd: "memcached_io_read cfg n st 1 w = Inr (rc0, nread, bytes, st0, w0)"
      unfolding phase1_def by (cases "memcached_io_read cfg n st 1 w") auto
    show ?thesis
    proof (cases "memcached_failed rc0")
      case failed: True
      show ?thesis
      proof (cases "rc0 = MEMCACHED_IN_PROGRESS")
        case True
        with p1 rd failed \<open>read_buffer_length st = 0\<close> show ?thesis
          unfolding phase1_def
          by (cases "memcached_quit_server cfg st0 w0")
             (auto simp: memcached_set_error_def)
      next
        case False
        with p1 rd failed \<open>read_buffer_length st = 0\<close> show ?thesis
          unfolding phase1_def by (auto simp: memcached_failed_def)
      qed
    next
      case ok: False
      with p1 rd \<open>read_buffer_length st = 0\<close> obtain b bs where
        "bytes = b # bs" "ropt = None" "out1 = out @ [b]" "tn1 = total_nr + 1" "lc1 = (b = NEWLINE)"
        unfolding phase1_def by (cases bytes) (auto split: if_splits)
      with Suc.prems(2,3) show ?thesis
        by (auto simp: line_so_far_def)
    qed
  qed
  show ?case
  proof (cases ropt)
    case (Some rc0)
    with Suc.prems(1) unfold p1 have "rc = rc0" "total_nr' = tn1" "out' = out1"
      by simp_all
    with Some p1_facts Suc.prems(2,3) show ?thesis
      by (intro exI [of _ False]) auto
  next
    case None
    with p1_facts have l1: "line_so_far max_size out1 tn1 lc1" by simp
    from Suc.prems(1) unfold p1 None obtain st2 out2 tn2 lc2 where
      c: "readline_copy cfg max_size st1 out1 tn1 lc1 = Inr (st2, out2, tn2, lc2)"
      by (auto split: sum.splits)
    from readline_copy_keeps_line [OF c l1] have l2: "line_so_far max_size out2 tn2 lc2" .
    consider (full) "tn2 = max_size" | (complete) "tn2 \<noteq> max_size" "lc2"
      | (more) "tn2 \<noteq> max_size" "\<not> lc2"
      by blast
    then show ?thesis
    proof cases
      case full
      with Suc.prems(1) unfold p1 None c l2 show ?thesis
        by (intro exI [of _ lc2]) auto
    next
      case complete
      with Suc.prems(1) unfold p1 None c l2 show ?thesis
        by (intro exI [of _ lc2]) (auto simp: line_so_far_def)
    next
      case more
      with Suc.prems(1) unfold p1 None c
      have rec: "readline_loop cfg n max_size st2 out2 tn2 w1 = Inr (rc, total_nr', out', st', w')"
        by simp
      from l2 more have "line_so_far max_size out2 tn2 False" "tn2 < max_size"
        by (auto simp: line_so_far_def)
      from Suc.IH [OF rec this] show ?thesis .
    qed
  qed
qed

text \<open>
  The copy of a buffered line: bytes other than the terminator are copied one by one,
  and the copy stops after the terminator or when the destination is full.
\<close>

lemma take_drop_Cons:
  assumes "take (Suc n) (drop k xs) = b # bs"
  shows "k < length xs \<and> xs ! k = b \<and> take n (drop (Suc k) xs) = bs"
proof -
  from assms have k: "k < length xs"
    by (cases "k < length xs") auto
  then have "drop k xs = xs ! k # drop (Suc k) xs"
    by (simp add: Cons_nth_drop_Suc)
  with assms k show ?thesis by simp
qed

lemma readline_copy_plain:
  assumes "take (length bs) (drop (read_ptr st) (read_buffer st)) = bs"
    and "read_ptr st + length bs \<le> MEMCACHED_MAX_BUFFER cfg"
    and "length bs \<le> read_buffer_length st"
    and "NEWLINE \<notin> set bs"
    and "total_nr + length bs \<le> max_size"
  shows "readline_copy cfg max_size st out total_nr False =
         readline_copy cfg max_size
           (st\<lparr>read_buffer_length := read_buffer_length st - length bs,
               read_ptr := read_ptr st + length bs\<rparr>)
           (out @ bs) (total_nr + length bs) False"
  using assms
proof (induction bs arbitrary: st out total_nr)
  case Nil
  then show ?case by simp
next
  case (Cons b bs)
  from take_drop_Cons [of "length bs" "read_ptr st" "read_buffer st" b bs] Cons.prems(1)
  have k: "read_ptr st < length (read_buffer st)" "read_buffer st ! read_ptr st = b"
    "take (length bs) (drop (Suc (read_ptr st)) (read_buffer st)) = bs"
    by simp_all
  define st1 where "st1 = st\<lparr>read_buffer_length := read_buffer_length st - 1,
                               read_ptr := read_ptr st + 1\<rparr>"
  have step: "readline_copy cfg max_size st out total_nr False =
              readline_copy cfg max_size st1 (out @ [b]) (total_nr + 1) False"
    using Cons.prems k
    by (subst readline_copy.simps) (auto simp: st1_def)
  have "readline_copy cfg max_size st1 (out @ [b]) (total_nr + 1) False =
         readline_copy cfg max_size
           (st1\<lparr>read_buffer_length := read_buffer_length st1 - length bs,
                read_ptr := read_ptr st1 + length bs\<rparr>)
           ((out @ [b]) @ bs) ((total_nr + 1) + length bs) False"
    by (rule Cons.IH) (use Cons.prems k in \<open>auto simp: st1_def\<close>)
  with step show ?case
    by (simp add: st1_def)
qed

lemma readline_copy_line:
  assumes "line \<noteq> []"
    and "take (length line) (drop (read_ptr st) (read_buffer st)) = line"
    and "read_ptr st + length line \<le> MEMCACHED_MAX_BUFFER cfg"
    and "length line \<le> read_buffer_length st"
    and "NEWLINE \<notin> set (butlast line)"
    and "length line = max_size \<or> length line < max_size \<and> last line = NEWLINE"
  shows "readline_copy cfg max_size st [] 0 False =
         Inr (st\<lparr>read_buffer_length := read_buffer_length st - length line,
                 read_ptr := read_ptr st + length line\<rparr>,
              line, length line, last line = NEWLINE)"
proof -
  define bs where "bs = butlast line"
  define b where "b = last line"
  have line: "line = bs @ [b]" using assms(1) by (simp add: bs_def b_def)
  define st1 where "st1 = st\<lparr>read_buffer_length := read_buffer_length st - length bs,
                               read_ptr := read_ptr st + length bs\<rparr>"
  define st2 where "st2 = st\<lparr>read_buffer_length := read_buffer_length st - length line,
                               read_ptr := read_ptr st + length line\<rparr>"
  have tk: "take (length bs) (drop (read_ptr st) (read_buffer st)) = bs"
  proof -
    have "take (length bs) (take (length line) (drop (read_ptr st) (read_buffer st))) = bs"
      using assms(2) line by simp
    then show ?thesis using line by (simp add: min_def)
  qed
  have nb: "NEWLINE \<notin> set bs" using assms(5) by (simp add: bs_def)
  have ll: "length line = Suc (length bs)" using line by simp
  have plain: "readline_copy cfg max_size st [] 0 False =
               readline_copy cfg max_size st1 ([] @ bs) (0 + length bs) False"
    unfolding st1_def
    by (rule readline_copy_plain [OF tk _ _ nb]) (use assms(3,4,6) ll in auto)
  have len: "length (drop (read_ptr st) (read_buffer st)) \<ge> length line"
  proof -
    have "length (take (length line) (drop (read_ptr st) (read_buffer st))) = length line"
      using assms(2) by simp
    then show ?thesis by simp
  qed
  have inb: "read_ptr st + length bs < length (read_buffer st)"
    using len ll by simp
  have bat: "read_buffer st ! (read_ptr st + length bs) = b"
  proof -
    have "take (length line) (drop (read_ptr st) (read_buffer st)) ! length bs = line ! length bs"
      using assms(2) by simp
    then show ?thesis using line inb ll by simp
  qed
  have step: "readline_copy cfg max_size st1 bs (length bs) False =
              readline_copy cfg max_size st2 line (length line) (b = NEWLINE)"
    using assms(3,4,6) ll inb bat
    by (subst readline_copy.simps) (auto simp: st1_def st2_def line)
  have stop: "readline_copy cfg max_size st2 line (length line) (b = NEWLINE) =
              Inr (st2, line, length line, b = NEWLINE)"
    using assms(6) by (subst readline_copy.simps) (auto simp: b_def)
  from plain step stop show ?thesis
    by (simp add: st2_def b_def)
qed

text \<open>
  Claim C1 (\<^verbatim>\<open>memcached_io_readline\<close>, boundary of the destination). Whenever the line
  read returns, with a destination of capacity \<open>max_size > 0\<close>, it has stored \<open>total_nr\<close>
  bytes, at most \<open>max_size\<close>, with no line terminator before the last one; it returns
  \<^verbatim>\<open>MEMCACHED_PROTOCOL_ERROR\<close> whenever \<open>total_nr\<close> has reached \<open>max_size\<close>, with or without
  a terminator among the bytes, and it returns \<^verbatim>\<open>MEMCACHED_SUCCESS\<close> exactly when fewer
  than \<open>max_size\<close> bytes were stored and the last of them is the terminator. And the line
  read does return on buffered input: when the unread bytes of the read buffer start
  with \<open>line\<close>, which has no terminator before its last byte, and \<open>line\<close> either has
  \<open>max_size\<close> bytes or has fewer and ends with the terminator, the call consumes exactly
  \<open>line\<close>, makes no system call, and returns the protocol error in the first case and
  success with \<open>total_nr = length line < max_size\<close> in the second. So a line of
  \<open>max_size - 1\<close> data bytes and a terminator is a protocol error, and the longest line
  that succeeds has \<open>max_size - 2\<close> data bytes.
\<close>

theorem readline_boundary:
  "(memcached_io_readline cfg fuel st max_size w = Inr (rc, total_nr, out, st', w') \<and> 0 < max_size
      \<longrightarrow>
      length out = total_nr \<and> total_nr \<le> max_size \<and> NEWLINE \<notin> set (butlast out) \<and>
      (total_nr = max_size \<longrightarrow> rc = MEMCACHED_PROTOCOL_ERROR) \<and>
      (rc = MEMCACHED_SUCCESS \<longleftrightarrow> total_nr < max_size \<and> out \<noteq> [] \<and> last out = NEWLINE)) \<and>
   (line \<noteq> [] \<and> take (length line) (drop (read_ptr st) (read_buffer st)) = line \<and>
    read_ptr st + length line \<le> MEMCACHED_MAX_BUFFER cfg \<and>
    length line \<le> read_buffer_length st \<and>
    NEWLINE \<notin> set (butlast line) \<and>
    (length line = max_size \<or> length line < max_size \<and> last line = NEWLINE)
      \<longrightarrow>
      memcached_io_readline cfg (Suc n) st max_size w =
        Inr (if length line = max_size then MEMCACHED_PROTOCOL_ERROR else MEMCACHED_SUCCESS,
             length line, line,
             st\<lparr>read_buffer_length := read_buffer_length st - length line,
                read_ptr := read_ptr st + length line\<rparr>, w))"
proof (rule conjI; rule impI)
  assume a: "memcached_io_readline cfg fuel st max_size w = Inr (rc, total_nr, out, st', w')
             \<and> 0 < max_size"
  then have r: "readline_loop cfg fuel max_size st [] 0 w = Inr (rc, total_nr, out, st', w')"
    by (simp add: memcached_io_readline_def)
  have "line_so_far max_size [] 0 False"
    by (simp add: line_so_far_def)
  from readline_loop_keeps_line [OF r this] a obtain line_complete where
    l: "line_so_far max_size out total_nr line_complete"
    and e: "total_nr = max_size \<longrightarrow> rc = MEMCACHED_PROTOCOL_ERROR"
    and s: "rc = MEMCACHED_SUCCESS \<longleftrightarrow> total_nr < max_size \<and> line_complete"
    by blast
  have lc: "line_complete \<longleftrightarrow> out \<noteq> [] \<and> last out = NEWLINE"
  proof (cases line_complete)
    case True
    with l show ?thesis by (simp add: line_so_far_def)
  next
    case False
    with l have "NEWLINE \<notin> set out" by (simp add: line_so_far_def)
    with last_in_set [of out] False show ?thesis by metis
  qed
  have nb: "NEWLINE \<notin> set (butlast out)"
    using l by (auto simp: line_so_far_def dest: in_set_butlastD split: if_splits)
  show "length out = total_nr \<and> total_nr \<le> max_size \<and> NEWLINE \<notin> set (butlast out) \<and>
      (total_nr = max_size \<longrightarrow> rc = MEMCACHED_PROTOCOL_ERROR) \<and>
      (rc = MEMCACHED_SUCCESS \<longleftrightarrow> total_nr < max_size \<and> out \<noteq> [] \<and> last out = NEWLINE)"
    using l e s lc nb by (simp add: line_so_far_def)
next
  assume b: "line \<noteq> [] \<and> take (length line) (drop (read_ptr st) (read_buffer st)) = line \<and>
    read_ptr st + length line \<le> MEMCACHED_MAX_BUFFER cfg \<and>
    length line \<le> read_buffer_length st \<and>
    NEWLINE \<notin> set (butlast line) \<and>
    (length line = max_size \<or> length line < max_size \<and> last line = NEWLINE)"
  then have ne: "read_buffer_length st \<noteq> 0"
    by (cases line) auto
  have c: "readline_copy cfg max_size st [] 0 False =
         Inr (st\<lparr>read_buffer_length := read_buffer_length st - length line,
                 read_ptr := read_ptr st + length line\<rparr>,
              line, length line, last line = NEWLINE)"
    using b by (intro readline_copy_line) simp_all
  show "memcached_io_readline cfg (Suc n) st max_size w =
        Inr (if length line = max_size then MEMCACHED_PROTOCOL_ERROR else MEMCACHED_SUCCESS,
             length line, line,
             st\<lparr>read_buffer_length := read_buffer_length st - length line,
                read_ptr := read_ptr st + length line\<rparr>, w)"
    using b ne c
    by (auto simp: memcached_io_readline_def readline_loop.simps)
qed

text \<open>
  The line \<^verbatim>\<open>ab\n\<close> read into a destination of 4 bytes succeeds with 3 bytes stored; read
  into a destination of 2 bytes it is a protocol error after \<^verbatim>\<open>ab\<close>.
\<close>

theorem readline_boundary_witness:
  "memcached_io_readline example_config 1 example_line_instance 4 example_world =
     Inr (MEMCACHED_SUCCESS, 3, [97, 98, 10],
          example_line_instance\<lparr>read_buffer_length := 0, read_ptr := 3\<rparr>, example_world) \<and>
   memcached_io_readline example_config 1 example_line_instance 2 example_world =
     Inr (MEMCACHED_PROTOCOL_ERROR, 2, [97, 98],
          example_line_instance\<lparr>read_buffer_length := 1, read_ptr := 2\<rparr>, example_world) \<and>
   last [97, 98, 10] = NEWLINE \<and> NEWLINE \<notin> set (butlast [97, 98, 10])"
proof -
  have a: "memcached_io_readline example_config 1 example_line_instance 4 example_world =
     Inr (MEMCACHED_SUCCESS, 3, [97, 98, 10],
          example_line_instance\<lparr>read_buffer_length := 0, read_ptr := 3\<rparr>, example_world)"
    using readline_boundary [where line = "[97, 98, 10]" and cfg = example_config
        and st = example_line_instance and max_size = 4 and n = 0 and w = example_world,
        THEN conjunct2]
    by (simp add: example_line_instance_def example_instance_def example_config_def NEWLINE_def)
  have b: "memcached_io_readline example_config 1 example_line_instance 2 example_world =
     Inr (MEMCACHED_PROTOCOL_ERROR, 2, [97, 98],
          example_line_instance\<lparr>read_buffer_length := 1, read_ptr := 2\<rparr>, example_world)"
    using readline_boundary [where line = "[97, 98]" and cfg = example_config
        and st = example_line_instance and max_size = 2 and n = 0 and w = example_world,
        THEN conjunct2]
    by (simp add: example_line_instance_def example_instance_def example_config_def NEWLINE_def)
  have c: "last [97, 98, 10] = NEWLINE \<and> NEWLINE \<notin> set (butlast [97, 98, 10])"
    using a readline_boundary [where cfg = example_config and fuel = 1
        and st = example_line_instance and max_size = 4 and w = example_world
        and rc = MEMCACHED_SUCCESS and total_nr = 3 and out = "[97, 98, 10]"
        and st' = "example_line_instance\<lparr>read_buffer_length := 0, read_ptr := 3\<rparr>"
        and w' = example_world, THEN conjunct1]
    by simp
  from a b c show ?thesis by simp
qed

text \<open>
  The same line read into a destination of exactly 3 bytes, that is 2 data bytes and the
  terminator filling the destination: the code returns \<^verbatim>\<open>MEMCACHED_PROTOCOL_ERROR\<close>, not
  success with \<open>total_nr = 3\<close>.
\<close>

lemma readline_full_line_is_protocol_error:
  "map_sum id (\<lambda>(rc, total_nr, out, st', w'). (rc, total_nr, out))
     (memcached_io_readline example_config 1 example_line_instance 3 example_world) =
   Inr (MEMCACHED_PROTOCOL_ERROR, 3, [97, 98, 10])"
  by (simp add: memcached_io_readline_def readline_loop.simps readline_copy.simps
      example_line_instance_def example_instance_def example_config_def NEWLINE_def)

end
